theory Spec2Isabelle
  imports Complex_Main "HOL-Library.AList"
begin

section \<open>The ObjectLoader of nunuStudio\<close>

text \<open>
  A shallow embedding of \<^verbatim>\<open>source/core/loaders/ObjectLoader.js\<close>: the top-level
  \<^verbatim>\<open>parse\<close>, the resource sub-loaders, \<^verbatim>\<open>parseAnimations\<close>,
  \<^verbatim>\<open>parseSkeletons\<close>, \<^verbatim>\<open>bindSkeletons\<close> and the recursive \<^verbatim>\<open>parseObject\<close>.

  Conventions of the embedding.
  \<^item> A JSON field that may be absent is an \<open>option\<close>; \<open>None\<close> is JavaScript's
    \<^verbatim>\<open>undefined\<close>. A field that is present has the type the loader expects of it.
  \<^item> An exception is a value: every function that can throw returns \<open>error + 'a\<close>,
    together with the state reached when the exception was thrown.
  \<^item> The exceptions modelled are the ones the code of the loader raises itself: reading
    a property of \<^verbatim>\<open>undefined\<close> and calling a method the object does not have.
    Constructors and methods of the rendering library and of classes outside the file
    are taken to return normally, except \<^verbatim>\<open>fromArray\<close> of \<^verbatim>\<open>undefined\<close>, which reads the
    entries of its argument and throws.
  \<^item> The console is part of the state: \<^verbatim>\<open>console.error\<close> and \<^verbatim>\<open>console.warn\<close>
    append an entry.
  \<^item> A reference to a node of the tree under construction is the path to that node
    (child indices from the node that holds the reference, or from the node at which a
    skeleton block was parsed).
  \<^item> Of the variant-specific payload (camera parameters, colours, audio settings and
    the like) only the fields that decide control flow or that a later step of the loader
    reads are kept.
\<close>

subsection \<open>Values shared by the data and the objects\<close>

type_synonym uuid = "string option"
type_synonym path = "nat list"
type_synonym numbers = "real list"

text \<open>String conversion of a possibly undefined identifier, as \<^verbatim>\<open>"..." + x\<close> and
  \<^verbatim>\<open>obj[x]\<close> perform it.\<close>

definition str :: "uuid \<Rightarrow> string" where
  "str u = (case u of None \<Rightarrow> ''undefined'' | Some s \<Rightarrow> s)"

datatype error = TypeError string

datatype logentry = ConsoleError string error | ConsoleWarn string

subsection \<open>The JSON document\<close>

record resource =
  r_uuid :: uuid

record geometry =
  g_uuid :: uuid
  g_bones :: "string list option"

record clipdata =
  cd_uuid :: uuid
  cd_name :: string

record skeletondata =
  sk_uuid :: uuid
  sk_bones :: "uuid list option"
  sk_boneInverses :: "numbers list option"

record leveldata =
  l_object :: uuid
  l_distance :: "real option"

record worlddata =
  w_gravity :: "(real \<times> real \<times> real) option"
  w_solver :: "(real \<times> nat) option"

datatype viewportdata = ViewportArray numbers | ViewportObject

text \<open>The fields of one node record, without its children. \<open>d_elements\<close> and
  \<open>d_lensFlares\<close> are the flare lists of a LensFlare, \<open>d_textures\<close> the texture list of
  a SpineAnimation, \<open>d_instanceMatrix\<close> the array of an InstancedMesh.\<close>

record fields =
  d_type :: string
  d_uuid :: uuid
  d_name :: "string option"
  d_locked :: "bool option"
  d_hidden :: "bool option"
  d_folded :: "bool option"
  d_frustumCulled :: "bool option"
  d_renderOrder :: "int option"
  d_animations :: "clipdata list option"
  d_matrix :: "numbers option"
  d_position :: "numbers option"
  d_rotation :: "numbers option"
  d_quaternion :: "numbers option"
  d_scale :: "numbers option"
  d_castShadow :: "bool option"
  d_receiveShadow :: "bool option"
  d_shadow :: "numbers option"
  d_visible :: "bool option"
  d_userData :: "string option"
  d_layers :: "nat option"
  d_matrixAutoUpdate :: "bool option"
  d_skeletons :: "skeletondata list option"
  d_geometry :: uuid
  d_skeleton :: "string option"
  d_cameras :: "string list option"
  d_levels :: "leveldata list option"
  d_world :: "worlddata option"
  d_textures :: "uuid list option"
  d_lensFlares :: "uuid list option"
  d_elements :: "uuid list option"
  d_instanceMatrix :: "numbers option"
  d_center :: "numbers option"
  d_vector :: "numbers option"
  d_viewport :: "viewportdata option"
  d_offset :: "numbers option"
  d_sh :: "numbers option"

record docres =
  j_resources :: "resource list option"
  j_shapes :: "resource list option"
  j_geometries :: "geometry list option"
  j_images :: "resource list option"
  j_videos :: "resource list option"
  j_audio :: "resource list option"
  j_fonts :: "resource list option"
  j_textures :: "resource list option"
  j_materials :: "resource list option"

text \<open>A node record with its children in iteration order, and the document a Scene
  record may carry in its legacy \<^verbatim>\<open>defaultCamera\<close> field.\<close>

datatype NodeData = NodeData (nd_fields: fields) (nd_children: "NodeData list option")
    (nd_defaultCamera: "Document option")
and Document = Document (doc_res: docres) (doc_object: "NodeData option")

subsection \<open>The objects built\<close>

datatype ObjKind =
    SpineAnimation | AudioEmitter | PositionalAudio | PhysicsObject | ParticleEmitter
  | LensFlare | TextMesh | Program | LeapMotion | KinectDevice | Sky | CubeCamera
  | FirstPersonControls | OrbitControls | Scene | PerspectiveCamera | OrthographicCamera
  | Script | RectAreaLight | AmbientLight | DirectionalLight | PointLight | SpotLight
  | HemisphereLight | SkinnedMesh | InstancedMesh | HTMLView | LightProbe | Mesh
  | TextBitmap | TextSprite | LOD | Line | LineLoop | LineSegments | Points | Sprite
  | Container | Bone

datatype boneref = TreeBone path | NewBone

record skeleton =
  bones :: "boneref list"
  boneInverses :: "numbers list"

datatype camref = CamUuid string | CamNode path

record clip =
  c_uuid :: uuid
  c_name :: string

record attrs =
  kind :: ObjKind
  uuid :: uuid
  name :: "string option"
  locked :: bool
  folded :: bool
  frustumCulled :: bool
  renderOrder :: int
  animations :: "clip list option"
  position :: numbers
  rotation :: numbers
  quaternion :: numbers
  scale :: numbers
  castShadow :: bool
  receiveShadow :: bool
  shadow :: "numbers option"
  visible :: bool
  userData :: "string option"
  layers :: nat
  matrixAutoUpdate :: bool
  skeletonUUID :: "string option"
  boundSkeleton :: "skeleton option"
  cameras :: "camref list"
  levels :: "(path \<times> real option) list"

datatype node = Node (attrs: attrs) (children: "node list")

text \<open>The loader (a ResourceContainer: one dictionary per resource kind, keyed by the
  string form of the UUID), the console, and the objects handed to \<^verbatim>\<open>onLoad\<close>.\<close>

record state =
  resources :: "(string \<times> resource) list"
  shapes :: "(string \<times> resource) list"
  geometries :: "(string \<times> geometry) list"
  images :: "(string \<times> resource) list"
  videos :: "(string \<times> resource) list"
  audio :: "(string \<times> resource) list"
  fonts :: "(string \<times> resource) list"
  textures :: "(string \<times> resource) list"
  materials :: "(string \<times> resource) list"
  console :: "logentry list"
  loaded :: "node list"

definition warn :: "string \<Rightarrow> state \<Rightarrow> state" where
  "warn msg st = st\<lparr>console := console st @ [ConsoleWarn msg]\<rparr>"

subsection \<open>Resource sub-loaders\<close>

text \<open>Each sub-loader is a no-op on \<^verbatim>\<open>undefined\<close> and otherwise stores every record under
  its UUID, a later record replacing an earlier one with the same key.\<close>

definition store :: "('r \<Rightarrow> uuid) \<Rightarrow> (string \<times> 'r) list \<Rightarrow> 'r list option \<Rightarrow> (string \<times> 'r) list" where
  "store key c json =
     (case json of None \<Rightarrow> c
      | Some rs \<Rightarrow> fold (\<lambda>r c'. AList.update (str (key r)) r c') rs c)"

definition parseResources :: "state \<Rightarrow> resource list option \<Rightarrow> state" where
  "parseResources st json = st\<lparr>resources := store r_uuid (resources st) json\<rparr>"

definition parseShape :: "state \<Rightarrow> resource list option \<Rightarrow> state" where
  "parseShape st json = st\<lparr>shapes := store r_uuid (shapes st) json\<rparr>"

definition parseGeometries :: "state \<Rightarrow> geometry list option \<Rightarrow> state" where
  "parseGeometries st array = st\<lparr>geometries := store g_uuid (geometries st) array\<rparr>"

definition parseMaterials :: "state \<Rightarrow> resource list option \<Rightarrow> state" where
  "parseMaterials st json = st\<lparr>materials := store r_uuid (materials st) json\<rparr>"

definition parseImages :: "state \<Rightarrow> resource list option \<Rightarrow> state" where
  "parseImages st json = st\<lparr>images := store r_uuid (images st) json\<rparr>"

definition parseVideos :: "state \<Rightarrow> resource list option \<Rightarrow> state" where
  "parseVideos st json = st\<lparr>videos := store r_uuid (videos st) json\<rparr>"

definition parseAudio :: "state \<Rightarrow> resource list option \<Rightarrow> state" where
  "parseAudio st json = st\<lparr>audio := store r_uuid (audio st) json\<rparr>"

definition parseFonts :: "state \<Rightarrow> resource list option \<Rightarrow> state" where
  "parseFonts st json = st\<lparr>fonts := store r_uuid (fonts st) json\<rparr>"

definition parseTextures :: "state \<Rightarrow> resource list option \<Rightarrow> state" where
  "parseTextures st json = st\<lparr>textures := store r_uuid (textures st) json\<rparr>"

text \<open>Modelled from the spec: \<^verbatim>\<open>getGeometry(uuid) -> resource|undefined\<close> of the
  ResourceContainer, whose source is not in the repository's files: a lookup in the
  geometry dictionary.\<close>

definition getGeometry :: "state \<Rightarrow> uuid \<Rightarrow> geometry option" where
  "getGeometry st u = map_of (geometries st) (str u)"

subsection \<open>Tree lookup\<close>

text \<open>\<^verbatim>\<open>Object3D.getObjectByProperty("uuid", value)\<close>: the object itself if its UUID is the
  value, else the first hit among the children, depth first.\<close>

fun getObjectByProperty :: "node \<Rightarrow> uuid \<Rightarrow> path option"
and getObjectAmong :: "node list \<Rightarrow> nat \<Rightarrow> uuid \<Rightarrow> path option" where
  "getObjectByProperty (Node a cs) v = (if uuid a = v then Some [] else getObjectAmong cs 0 v)"
| "getObjectAmong [] i v = None"
| "getObjectAmong (c # cs) i v =
     (case getObjectByProperty c v of
        Some p \<Rightarrow> Some (i # p)
      | None \<Rightarrow> getObjectAmong cs (Suc i) v)"


text \<open>All nodes of a subtree, the root first.\<close>

fun subnodes :: "node \<Rightarrow> node list" where
  "subnodes (Node a cs) = Node a cs # concat (map subnodes cs)"

text \<open>Modelled from the spec: \<^verbatim>\<open>Scene.getCamera(uuid)\<close>, whose source is not in the
  repository's files, resolves a camera UUID "by tree lookup" and yields \<^verbatim>\<open>null\<close> when
  nothing is found. An entry of the camera list that is already an object is no UUID of
  any node.\<close>

definition getCamera :: "node \<Rightarrow> camref \<Rightarrow> path option" where
  "getCamera object c =
     (case c of CamUuid u \<Rightarrow> getObjectByProperty object (Some u) | CamNode p \<Rightarrow> None)"

subsection \<open>Animations\<close>

text \<open>\<^verbatim>\<open>Array.prototype.push\<close> appends its arguments; called with none it appends nothing.
  \<^verbatim>\<open>THREE.AnimationClip.parse\<close> is the library's; the clip it returns carries a UUID
  of its own making, written \<open>None\<close>.\<close>

definition push :: "'a list \<Rightarrow> 'a list \<Rightarrow> 'a list" where
  "push items xs = xs @ items"

definition AnimationClip_parse :: "clipdata \<Rightarrow> clip" where
  "AnimationClip_parse cd = \<lparr>c_uuid = None, c_name = cd_name cd\<rparr>"

fun parseAnimationsFrom :: "clip list \<Rightarrow> clipdata list \<Rightarrow> clip list" where
  "parseAnimationsFrom anims [] = anims"
| "parseAnimationsFrom anims (a # array) =
     (let clip = AnimationClip_parse a;
          clip = (case cd_uuid a of None \<Rightarrow> clip | Some u \<Rightarrow> clip\<lparr>c_uuid := Some u\<rparr>)
      in parseAnimationsFrom (push [] anims) array)"

definition parseAnimations :: "clipdata list \<Rightarrow> clip list" where
  "parseAnimations array = parseAnimationsFrom [] array"

subsection \<open>Skeletons\<close>

text \<open>The inner loop of \<^verbatim>\<open>parseSkeletons\<close> over the bone UUIDs, \<open>j\<close> the index of the bone.
  \<^verbatim>\<open>boneInverseParams[j]\<close> throws when the array is undefined, and
  \<^verbatim>\<open>Matrix4.fromArray\<close> reads the sixteen entries of its argument, so it throws on an
  entry that is missing.\<close>

fun parseBones :: "state \<Rightarrow> node \<Rightarrow> uuid list \<Rightarrow> numbers list option \<Rightarrow> nat
    \<Rightarrow> boneref list \<Rightarrow> numbers list \<Rightarrow> state \<times> (error + boneref list \<times> numbers list)" where
  "parseBones st object [] boneInverseParams j bs invs = (st, Inr (bs, invs))"
| "parseBones st object (b # boneParams) boneInverseParams j bs invs =
     (let (bone, st1) =
            (case getObjectByProperty object b of
               None \<Rightarrow> (NewBone, warn (''THREE.ObjectLoader: Not found Bone whose uuid is '' @ str b) st)
             | Some p \<Rightarrow> (TreeBone p, st))
      in case boneInverseParams of
           None \<Rightarrow> (st1, Inl (TypeError ''boneInverseParams is undefined''))
         | Some ms \<Rightarrow>
             if j < length ms
             then parseBones st1 object boneParams boneInverseParams (Suc j) (push [bone] bs) (push [take 16 (ms ! j)] invs)
             else (st1, Inl (TypeError ''fromArray of undefined'')))"

fun parseSkeletonsFrom :: "state \<Rightarrow> node \<Rightarrow> skeletondata list \<Rightarrow> (string \<times> skeleton) list
    \<Rightarrow> state \<times> (error + (string \<times> skeleton) list)" where
  "parseSkeletonsFrom st object [] skeletons = (st, Inr skeletons)"
| "parseSkeletonsFrom st object (skeletonParams # json) skeletons =
     (case sk_bones skeletonParams of
        None \<Rightarrow> (st, Inl (TypeError ''boneParams is undefined''))
      | Some boneParams \<Rightarrow>
          (case parseBones st object boneParams (sk_boneInverses skeletonParams) 0 [] [] of
             (st1, Inl e) \<Rightarrow> (st1, Inl e)
           | (st1, Inr (bs, invs)) \<Rightarrow>
               parseSkeletonsFrom st1 object json
                 (AList.update (str (sk_uuid skeletonParams))
                    \<lparr>bones = bs, boneInverses = invs\<rparr> skeletons)))"

definition parseSkeletons :: "state \<Rightarrow> skeletondata list option \<Rightarrow> node
    \<Rightarrow> state \<times> (error + (string \<times> skeleton) list)" where
  "parseSkeletons st json object =
     (case json of None \<Rightarrow> (st, Inr []) | Some l \<Rightarrow> parseSkeletonsFrom st object l [])"

text \<open>The callback \<^verbatim>\<open>bindSkeletons\<close> hands to \<^verbatim>\<open>traverse\<close>. \<^verbatim>\<open>obj.bind\<close> is the library's;
  the skeleton it is given is recorded in \<open>boundSkeleton\<close>.\<close>

definition bindOne :: "(string \<times> skeleton) list \<Rightarrow> attrs \<Rightarrow> state \<Rightarrow> attrs \<times> state" where
  "bindOne skeletons obj st =
     (if kind obj = SkinnedMesh then
        (case skeletonUUID obj of
           None \<Rightarrow> (obj, st)
         | Some u \<Rightarrow>
             (case map_of skeletons u of
                None \<Rightarrow> (obj\<lparr>skeletonUUID := None\<rparr>,
                         warn (''THREE.ObjectLoader: Not found Skeleton whose uuid is '' @ u) st)
              | Some skeleton \<Rightarrow> (obj\<lparr>skeletonUUID := None, boundSkeleton := Some skeleton\<rparr>, st)))
      else (obj, st))"

text \<open>\<^verbatim>\<open>Object3D.traverse\<close>: the callback on the object, then on each child's subtree.\<close>

fun traverse :: "(attrs \<Rightarrow> state \<Rightarrow> attrs \<times> state) \<Rightarrow> node \<Rightarrow> state \<Rightarrow> node \<times> state"
and traverseAll :: "(attrs \<Rightarrow> state \<Rightarrow> attrs \<times> state) \<Rightarrow> node list \<Rightarrow> state \<Rightarrow> node list \<times> state" where
  "traverse f (Node a cs) st =
     (case f a st of (a', st1) \<Rightarrow>
        (case traverseAll f cs st1 of (cs', st2) \<Rightarrow> (Node a' cs', st2)))"
| "traverseAll f [] st = ([], st)"
| "traverseAll f (c # cs) st =
     (case traverse f c st of (c', st1) \<Rightarrow>
        (case traverseAll f cs st1 of (cs', st2) \<Rightarrow> (c' # cs', st2)))"

definition bindSkeletons :: "state \<Rightarrow> node \<Rightarrow> (string \<times> skeleton) list \<Rightarrow> node \<times> state" where
  "bindSkeletons st object skeletons =
     (if length skeletons = 0 then (object, st) else traverse (bindOne skeletons) object st)"

subsection \<open>Constructing one object: the type switch\<close>

text \<open>Modelled from the spec: the object classes (Scene, Program, Container and the
  rest) are not in the repository's files. A freshly constructed object has the
  library's defaults: identity components, visible, no shadows. A Scene starts with an
  empty camera list and a LOD without levels; the generic group node (Container) has no
  camera list, no \<^verbatim>\<open>copyResources\<close>, no \<^verbatim>\<open>addLevel\<close> and no \<^verbatim>\<open>shadow\<close>, which
  is why these are guarded by the kind of the object where the loader reads them. The
  generated UUID of a new object is overwritten before anything reads it.\<close>

definition newObject :: "ObjKind \<Rightarrow> attrs" where
  "newObject k =
     \<lparr>kind = k, uuid = None, name = Some [], locked = False, folded = False,
      frustumCulled = True, renderOrder = 0, animations = None,
      position = [0, 0, 0], rotation = [0, 0, 0], quaternion = [0, 0, 0, 1],
      scale = [1, 1, 1], castShadow = False, receiveShadow = False, shadow = None,
      visible = True, userData = None, layers = 1, matrixAutoUpdate = True,
      skeletonUUID = None, boundSkeleton = None, cameras = [], levels = []\<rparr>"

text \<open>The lights of the rendering library that own a \<^verbatim>\<open>shadow\<close> object.\<close>

definition hasShadow :: "ObjKind \<Rightarrow> bool" where
  "hasShadow k = (k = DirectionalLight \<or> k = PointLight \<or> k = SpotLight)"

text \<open>The camera cases read \<^verbatim>\<open>data.offset\<close> into a vector when the viewport is an
  array.\<close>

definition cameraViewport :: "fields \<Rightarrow> attrs \<Rightarrow> error + attrs" where
  "cameraViewport data object =
     (case d_viewport data of
        Some (ViewportArray v) \<Rightarrow>
          (case d_offset data of
             None \<Rightarrow> Inl (TypeError ''fromArray of undefined'')
           | Some off \<Rightarrow> Inr object)
      | _ \<Rightarrow> Inr object)"

text \<open>The body of the \<^verbatim>\<open>switch(data.type)\<close>, case by case in the order of the source,
  apart from the nested \<^verbatim>\<open>this.parse(data.defaultCamera)\<close> of a Scene, which
  \<open>parseObject\<close> below runs first.\<close>

definition construct :: "state \<Rightarrow> fields \<Rightarrow> error + attrs" where
  "construct st data =
     (let t = d_type data in
      if t = ''SpineAnimation'' then
        (case d_textures data of
           None \<Rightarrow> Inl (TypeError ''data.textures is undefined'')
         | Some ts \<Rightarrow> Inr (newObject SpineAnimation))
      else if t = ''Audio'' then Inr (newObject AudioEmitter)
      else if t = ''PositionalAudio'' then Inr (newObject PositionalAudio)
      else if t = ''Physics'' then Inr (newObject PhysicsObject)
      else if t = ''ParticleEmiter'' then Inr (newObject ParticleEmitter)
      else if t = ''LensFlare'' then
        (case (case d_lensFlares data of None \<Rightarrow> d_elements data | Some fs \<Rightarrow> Some fs) of
           None \<Rightarrow> Inl (TypeError ''data.elements is undefined'')
         | Some es \<Rightarrow> Inr (newObject LensFlare))
      else if t = ''TextMesh'' \<or> t = ''Text3D'' then Inr (newObject TextMesh)
      else if t = ''Program'' then Inr (newObject Program)
      else if t = ''LeapDevice'' then Inr (newObject LeapMotion)
      else if t = ''Kinect'' then Inr (newObject KinectDevice)
      else if t = ''Sky'' then Inr (newObject Sky)
      else if t = ''CubeCamera'' then Inr (newObject CubeCamera)
      else if t = ''FirstPersonControls'' then Inr (newObject FirstPersonControls)
      else if t = ''OrbitControls'' then
        (if d_center data \<noteq> None \<and> d_vector data = None
         then Inl (TypeError ''fromArray of undefined'')
         else Inr (newObject OrbitControls))
      else if t = ''Scene'' then
        (let object =
               (case d_cameras data of
                  None \<Rightarrow> newObject Scene
                | Some cs \<Rightarrow> (newObject Scene)\<lparr>cameras := map CamUuid cs\<rparr>)
         in case d_world data of
              None \<Rightarrow> Inr object
            | Some w \<Rightarrow>
                (case w_gravity w of
                   None \<Rightarrow> Inl (TypeError ''data.world.gravity is undefined'')
                 | Some g \<Rightarrow>
                     (case w_solver w of
                        None \<Rightarrow> Inl (TypeError ''data.world.solver is undefined'')
                      | Some sv \<Rightarrow> Inr object)))
      else if t = ''PerspectiveCamera'' then cameraViewport data (newObject PerspectiveCamera)
      else if t = ''OrthographicCamera'' then cameraViewport data (newObject OrthographicCamera)
      else if t = ''Script'' then Inr (newObject Script)
      else if t = ''RectAreaLight'' then Inr (newObject RectAreaLight)
      else if t = ''AmbientLight'' then Inr (newObject AmbientLight)
      else if t = ''DirectionalLight'' then Inr (newObject DirectionalLight)
      else if t = ''PointLight'' then Inr (newObject PointLight)
      else if t = ''SpotLight'' then Inr (newObject SpotLight)
      else if t = ''HemisphereLight'' then Inr (newObject HemisphereLight)
      else if t = ''SkinnedMesh'' then
        (let geometry = getGeometry st (d_geometry data) in
         if d_skeleton data \<noteq> None \<and> geometry = None
         then Inl (TypeError ''geometry is undefined'')
         else Inr ((newObject SkinnedMesh)\<lparr>skeletonUUID := d_skeleton data\<rparr>))
      else if t = ''InstancedMesh'' then
        (case d_instanceMatrix data of
           None \<Rightarrow> Inl (TypeError ''data.instanceMatrix is undefined'')
         | Some m \<Rightarrow> Inr (newObject InstancedMesh))
      else if t = ''HTMLView'' then Inr (newObject HTMLView)
      else if t = ''LightProbe'' then
        (case d_sh data of
           None \<Rightarrow> Inl (TypeError ''fromArray of undefined'')
         | Some sh \<Rightarrow> Inr (newObject LightProbe))
      else if t = ''Mesh'' then
        (case getGeometry st (d_geometry data) of
           None \<Rightarrow> Inl (TypeError ''geometry is undefined'')
         | Some geometry \<Rightarrow>
             (case g_bones geometry of
                None \<Rightarrow> Inr (newObject Mesh)
              | Some bs \<Rightarrow> if length bs > 0 then Inr (newObject SkinnedMesh) else Inr (newObject Mesh)))
      else if t = ''TextBitmap'' then Inr (newObject TextBitmap)
      else if t = ''TextSprite'' then Inr (newObject TextSprite)
      else if t = ''LOD'' then Inr (newObject LOD)
      else if t = ''Line'' then Inr (newObject Line)
      else if t = ''LineLoop'' then Inr (newObject LineLoop)
      else if t = ''LineSegments'' then Inr (newObject LineSegments)
      else if t = ''PointCloud'' \<or> t = ''Points'' then Inr (newObject Points)
      else if t = ''Sprite'' then Inr (newObject Sprite)
      else if t = ''Group'' then Inr (newObject Container)
      else if t = ''Bone'' then Inr (newObject Bone)
      else Inr (newObject Container))"


text \<open>The \<^verbatim>\<open>try\<close> around the switch and its \<^verbatim>\<open>catch\<close>: \<open>thrown\<close> is the exception
  the nested parse of a Scene raised, if any.\<close>

definition tryConstruct :: "state \<Rightarrow> fields \<Rightarrow> error option \<Rightarrow> attrs \<times> state" where
  "tryConstruct st data thrown =
     (case (case thrown of Some e \<Rightarrow> Inl e | None \<Rightarrow> construct st data) of
        Inr object \<Rightarrow> (object, st)
      | Inl e \<Rightarrow>
          (newObject Container,
           st\<lparr>console := console st @
              [ConsoleError (''nunuStudio: Error parsing and creating object '' @ str (d_uuid data)
                 @ '', object skiped.'') e]\<rparr>))"

subsection \<open>The fields every object receives\<close>

text \<open>Lines 965 to 990: identity, editor flags, culling, render order, animation
  clips.\<close>

definition commonIdentity :: "fields \<Rightarrow> attrs \<Rightarrow> attrs" where
  "commonIdentity data object =
     (let object = object\<lparr>uuid := d_uuid data, name := d_name data\<rparr>;
          object = object\<lparr>locked := (d_locked data = Some True \<or> d_hidden data = Some True),
                          folded := (d_folded data = Some True)\<rparr>;
          object = (case d_frustumCulled data of None \<Rightarrow> object
                    | Some b \<Rightarrow> object\<lparr>frustumCulled := b\<rparr>);
          object = (case d_renderOrder data of None \<Rightarrow> object
                    | Some r \<Rightarrow> object\<lparr>renderOrder := r\<rparr>)
      in case d_animations data of None \<Rightarrow> object
         | Some array \<Rightarrow> object\<lparr>animations := Some (map AnimationClip_parse array)\<rparr>)"

text \<open>Lines 992 to 1003: the matrix and its decomposition, then the component arrays.
  \<^verbatim>\<open>Matrix4.decompose\<close> is the library's and is a parameter; \<^verbatim>\<open>fromArray\<close> copies
  the leading entries of the array (sixteen, three or four). The matrix itself is not
  kept with the object: the library recomputes it from the components (for a static
  object at once, lines 1037 to 1041).\<close>

definition commonTransform :: "(numbers \<Rightarrow> numbers \<times> numbers \<times> numbers) \<Rightarrow> fields \<Rightarrow> attrs \<Rightarrow> attrs" where
  "commonTransform decompose data object =
     (let object =
            (case d_matrix data of None \<Rightarrow> object
             | Some m \<Rightarrow>
                 (case decompose (take 16 m) of
                    (p, q, s) \<Rightarrow> object\<lparr>position := p, quaternion := q, scale := s\<rparr>));
          object = (case d_position data of None \<Rightarrow> object
                    | Some v \<Rightarrow> object\<lparr>position := take 3 v\<rparr>);
          object = (case d_rotation data of None \<Rightarrow> object
                    | Some v \<Rightarrow> object\<lparr>rotation := take 3 v\<rparr>);
          object = (case d_quaternion data of None \<Rightarrow> object
                    | Some v \<Rightarrow> object\<lparr>quaternion := take 4 v\<rparr>)
      in case d_scale data of None \<Rightarrow> object
         | Some v \<Rightarrow> object\<lparr>scale := take 3 v\<rparr>)"

text \<open>Lines 1006 to 1021: shadow flags, shadow map, visibility, user data, layers.
  \<^verbatim>\<open>object.shadow.fromJSON\<close> throws on an object that has no \<^verbatim>\<open>shadow\<close>.\<close>

definition commonShadow :: "fields \<Rightarrow> attrs \<Rightarrow> error + attrs" where
  "commonShadow data object =
     (let object = object\<lparr>castShadow := (d_castShadow data = Some True),
                          receiveShadow := (d_receiveShadow data = Some True)\<rparr>
      in if d_shadow data \<noteq> None \<and> \<not> hasShadow (kind object)
         then Inl (TypeError ''object.shadow is undefined'')
         else
           (let object = (case d_shadow data of None \<Rightarrow> object
                          | Some sh \<Rightarrow> object\<lparr>shadow := Some sh\<rparr>);
                object = object\<lparr>visible := (d_visible data = Some True)\<rparr>;
                object = (case d_userData data of None \<Rightarrow> object
                          | Some ud \<Rightarrow> object\<lparr>userData := Some ud\<rparr>)
            in Inr (case d_layers data of None \<Rightarrow> object
                    | Some l \<Rightarrow> object\<lparr>layers := l\<rparr>)))"

definition applyCommon :: "(numbers \<Rightarrow> numbers \<times> numbers \<times> numbers) \<Rightarrow> fields \<Rightarrow> attrs \<Rightarrow> error + attrs" where
  "applyCommon decompose data object =
     commonShadow data (commonTransform decompose data (commonIdentity data object))"

subsection \<open>After the children: skeletons, animations, type-specific wiring\<close>

text \<open>The loop over \<^verbatim>\<open>object.cameras\<close> of a Scene (lines 1065 to 1076): entry \<open>i\<close> is
  replaced by the camera found for it, or removed by \<^verbatim>\<open>splice(i, 1)\<close>; in both cases
  the index moves on.\<close>

function resolveCameras :: "node \<Rightarrow> nat \<Rightarrow> camref list \<Rightarrow> camref list" where
  "resolveCameras object i cams =
     (if i < length cams then
        (case getCamera object (cams ! i) of
           Some camera \<Rightarrow> resolveCameras object (Suc i) (cams[i := CamNode camera])
         | None \<Rightarrow> resolveCameras object (Suc i) (take i cams @ drop (Suc i) cams))
      else cams)"
  by pat_completeness auto
termination
  by (relation "measure (\<lambda>(object, i, cams). length cams - i)") auto

text \<open>\<^verbatim>\<open>LOD.addLevel\<close> is the library's; the registration it is called for is recorded
  in \<open>levels\<close>, in the order of the calls.\<close>

definition addLevel :: "node \<Rightarrow> path \<Rightarrow> real option \<Rightarrow> node" where
  "addLevel object child distance =
     Node ((attrs object)\<lparr>levels := levels (attrs object) @ [(child, distance)]\<rparr>) (children object)"

text \<open>The loop over \<^verbatim>\<open>data.levels\<close> of a LOD (lines 1082 to 1090).\<close>

fun addLevels :: "node \<Rightarrow> leveldata list \<Rightarrow> error + node" where
  "addLevels object [] = Inr object"
| "addLevels object (level # rest) =
     (case getObjectByProperty object (l_object level) of
        None \<Rightarrow> addLevels object rest
      | Some child \<Rightarrow>
          if kind (attrs object) = LOD
          then addLevels (addLevel object child (l_distance level)) rest
          else Inl (TypeError ''object.addLevel is not a function''))"

text \<open>Lines 1056 to 1091, selected by \<^verbatim>\<open>data.type\<close>. \<^verbatim>\<open>copyResources\<close> is a method of
  Program and \<^verbatim>\<open>cameras\<close> a field of Scene only.\<close>

definition postProcess :: "fields \<Rightarrow> node \<Rightarrow> error + node" where
  "postProcess data object =
     (if d_type data = ''Program'' then
        (if kind (attrs object) = Program then Inr object
         else Inl (TypeError ''object.copyResources is not a function''))
      else if d_type data = ''Scene'' then
        (if kind (attrs object) = Scene
         then Inr (Node ((attrs object)\<lparr>cameras := resolveCameras object 0 (cameras (attrs object))\<rparr>)
                     (children object))
         else Inl (TypeError ''object.cameras is undefined''))
      else if d_type data = ''LOD'' then
        (case d_levels data of
           None \<Rightarrow> Inl (TypeError ''levels is undefined'')
         | Some ls \<Rightarrow> addLevels object ls)
      else Inr object)"

text \<open>Lines 1032 to 1042: the static flag.\<close>

definition staticMatrix :: "fields \<Rightarrow> node \<Rightarrow> node" where
  "staticMatrix data object =
     (case d_matrixAutoUpdate data of
        None \<Rightarrow> object
      | Some b \<Rightarrow> Node ((attrs object)\<lparr>matrixAutoUpdate := b\<rparr>) (children object))"

text \<open>Lines 1044 to 1048: \<^verbatim>\<open>if(data.skeletons)\<close> holds for every array, also the empty
  one.\<close>

definition skeletonBlock :: "state \<Rightarrow> fields \<Rightarrow> node \<Rightarrow> state \<times> (error + node)" where
  "skeletonBlock st data object =
     (case d_skeletons data of
        None \<Rightarrow> (st, Inr object)
      | Some json \<Rightarrow>
          (case parseSkeletons st (Some json) object of
             (st1, Inl e) \<Rightarrow> (st1, Inl e)
           | (st1, Inr skeletons) \<Rightarrow>
               (case bindSkeletons st1 object skeletons of
                  (object', st2) \<Rightarrow> (st2, Inr object'))))"

text \<open>Lines 1050 to 1053.\<close>

definition animationBlock :: "fields \<Rightarrow> node \<Rightarrow> node" where
  "animationBlock data object =
     (case d_animations data of
        None \<Rightarrow> object
      | Some array \<Rightarrow>
          Node ((attrs object)\<lparr>animations := Some (parseAnimations array)\<rparr>) (children object))"

text \<open>Lines 1032 to 1091: static flag, skeleton block, animations, wiring.\<close>

definition finishObject :: "state \<Rightarrow> fields \<Rightarrow> node \<Rightarrow> state \<times> (error + node)" where
  "finishObject st data object =
     (case skeletonBlock st data (staticMatrix data object) of
        (st1, Inl e) \<Rightarrow> (st1, Inl e)
      | (st1, Inr object) \<Rightarrow> (st1, postProcess data (animationBlock data object)))"

subsection \<open>parseObject and parse\<close>

text \<open>\<^verbatim>\<open>Object3D.add\<close> of a freshly built child appends it to the children.\<close>

definition add :: "node \<Rightarrow> node \<Rightarrow> node" where
  "add object child = Node (attrs object) (children object @ [child])"

definition parseAll :: "state \<Rightarrow> docres \<Rightarrow> state" where
  "parseAll st json =
     parseMaterials (parseTextures (parseFonts (parseAudio (parseVideos (parseImages
       (parseGeometries (parseShape (parseResources st (j_resources json)) (j_shapes json))
          (j_geometries json)) (j_images json)) (j_videos json)) (j_audio json))
       (j_fonts json)) (j_textures json)) (j_materials json)"

text \<open>\<^verbatim>\<open>parseObject(data)\<close>, the loop over \<^verbatim>\<open>data.children\<close> and \<^verbatim>\<open>parse(json, onLoad)\<close>;
  \<open>onLoad\<close> says whether a callback was passed. \<^verbatim>\<open>parseObject(undefined)\<close> throws in
  the \<^verbatim>\<open>try\<close> at \<^verbatim>\<open>data.type\<close> and again in the handler at \<^verbatim>\<open>data.uuid\<close>.\<close>

fun parseObject :: "(numbers \<Rightarrow> numbers \<times> numbers \<times> numbers) \<Rightarrow> state \<Rightarrow> NodeData \<Rightarrow> state \<times> (error + node)"
and parseChildren :: "(numbers \<Rightarrow> numbers \<times> numbers \<times> numbers) \<Rightarrow> state \<Rightarrow> node \<Rightarrow> NodeData list \<Rightarrow> state \<times> (error + node)"
and parse :: "(numbers \<Rightarrow> numbers \<times> numbers \<times> numbers) \<Rightarrow> bool \<Rightarrow> state \<Rightarrow> Document \<Rightarrow> state \<times> (error + node)" where
  "parseObject dec st (NodeData data cs dc) =
     (case (if d_type data = ''Scene'' then
              (case dc of
                 None \<Rightarrow> (st, None)
               | Some doc \<Rightarrow>
                   (case parse dec False st doc of
                      (st1, Inl e) \<Rightarrow> (st1, Some e)
                    | (st1, Inr cam) \<Rightarrow> (st1, None)))
            else (st, None)) of
        (st1, thrown) \<Rightarrow>
          (case tryConstruct st1 data thrown of
             (object, st2) \<Rightarrow>
               (case applyCommon dec data object of
                  Inl e \<Rightarrow> (st2, Inl e)
                | Inr object \<Rightarrow>
                    (case (case cs of
                             None \<Rightarrow> (st2, Inr (Node object []))
                           | Some l \<Rightarrow> parseChildren dec st2 (Node object []) l) of
                       (st3, Inl e) \<Rightarrow> (st3, Inl e)
                     | (st3, Inr object) \<Rightarrow> finishObject st3 data object))))"
| "parseChildren dec st object [] = (st, Inr object)"
| "parseChildren dec st object (c # cs) =
     (case parseObject dec st c of
        (st1, Inl e) \<Rightarrow> (st1, Inl e)
      | (st1, Inr child) \<Rightarrow> parseChildren dec st1 (add object child) cs)"
| "parse dec onLoad st (Document json obj) =
     (let st1 = parseAll st json in
      case obj of
        None \<Rightarrow> (st1, Inl (TypeError ''data is undefined''))
      | Some data \<Rightarrow>
          (case parseObject dec st1 data of
             (st2, Inl e) \<Rightarrow> (st2, Inl e)
           | (st2, Inr object) \<Rightarrow>
               ((if (case j_images json of None \<Rightarrow> True | Some l \<Rightarrow> length l = 0) \<and> onLoad
                 then st2\<lparr>loaded := loaded st2 @ [object]\<rparr>
                 else st2),
                Inr object)))"

subsection \<open>Concrete inputs\<close>

text \<open>A node record that has its type tag and nothing else, a loader with empty
  containers, a document without resources, and the decomposition of a matrix that is a
  pure translation.\<close>

definition blank :: "string \<Rightarrow> fields" where
  "blank t =
     \<lparr>d_type = t, d_uuid = None, d_name = None, d_locked = None, d_hidden = None,
      d_folded = None, d_frustumCulled = None, d_renderOrder = None, d_animations = None,
      d_matrix = None, d_position = None, d_rotation = None, d_quaternion = None,
      d_scale = None, d_castShadow = None, d_receiveShadow = None, d_shadow = None,
      d_visible = None, d_userData = None, d_layers = None, d_matrixAutoUpdate = None,
      d_skeletons = None, d_geometry = None, d_skeleton = None, d_cameras = None,
      d_levels = None, d_world = None, d_textures = None, d_lensFlares = None,
      d_elements = None, d_instanceMatrix = None, d_center = None, d_vector = None,
      d_viewport = None, d_offset = None, d_sh = None\<rparr>"

definition emptyLoader :: state where
  "emptyLoader =
     \<lparr>resources = [], shapes = [], geometries = [], images = [], videos = [], audio = [],
      fonts = [], textures = [], materials = [], console = [], loaded = []\<rparr>"

definition noResources :: docres where
  "noResources =
     \<lparr>j_resources = None, j_shapes = None, j_geometries = None, j_images = None,
      j_videos = None, j_audio = None, j_fonts = None, j_textures = None, j_materials = None\<rparr>"

definition translation :: "numbers \<Rightarrow> numbers \<times> numbers \<times> numbers" where
  "translation m = (take 3 (drop 12 m), [0, 0, 0, 1], [1, 1, 1])"

subsection \<open>Auxiliary notions for the statements\<close>

text \<open>The fields of an object that only the universal pass writes: what is left when
  the fields written after the children are attached are reset.\<close>

definition universal :: "attrs \<Rightarrow> attrs" where
  "universal a = a\<lparr>matrixAutoUpdate := True, skeletonUUID := None, boundSkeleton := None,
      animations := None, cameras := [], levels := []\<rparr>"

text \<open>The second state is the first with entries added to the console.\<close>

definition consoleOnly :: "state \<Rightarrow> state \<Rightarrow> bool" where
  "consoleOnly st st' \<longleftrightarrow> (\<exists>extra. st' = st\<lparr>console := console st @ extra\<rparr>)"

text \<open>The objects a call of \<open>parse\<close> hands to \<^verbatim>\<open>onLoad\<close>, by its result.\<close>

definition onLoadCalls :: "bool \<Rightarrow> Document \<Rightarrow> error + node \<Rightarrow> node list" where
  "onLoadCalls onLoad doc r =
     (case r of
        Inl e \<Rightarrow> []
      | Inr object \<Rightarrow>
          if (j_images (doc_res doc) = None \<or> j_images (doc_res doc) = Some []) \<and> onLoad
          then [object] else [])"

text \<open>A skeleton record that the code of \<^verbatim>\<open>parseSkeletons\<close> can read to the end: it has a
  \<^verbatim>\<open>bones\<close> array and an inverse matrix for every bone.\<close>

definition wellFormedSkeleton :: "skeletondata \<Rightarrow> bool" where
  "wellFormedSkeleton s =
     (case sk_bones s of
        None \<Rightarrow> False
      | Some bs \<Rightarrow>
          (case sk_boneInverses s of
             None \<Rightarrow> bs = []
           | Some ms \<Rightarrow> length bs \<le> length ms))"

text \<open>The bone \<^verbatim>\<open>parseSkeletons\<close> takes for a UUID, and the attributes \<^verbatim>\<open>bindSkeletons\<close>
  leaves on a node; the latter do not depend on the console.\<close>

definition boneOf :: "node \<Rightarrow> uuid \<Rightarrow> boneref" where
  "boneOf object b = (case getObjectByProperty object b of None \<Rightarrow> NewBone | Some p \<Rightarrow> TreeBone p)"


text \<open>What the dictionary built by \<open>parseSkeletonsFrom\<close> holds under a key: an entry that
  was there before, or the skeleton of a record with that key.\<close>

definition builtFrom :: "node \<Rightarrow> state \<Rightarrow> skeletondata list \<Rightarrow> string \<Rightarrow> skeleton \<Rightarrow> bool" where
  "builtFrom object st' json u sk \<longleftrightarrow>
     (\<exists>s \<in> set json. \<exists>bs. str (sk_uuid s) = u \<and> sk_bones s = Some bs
        \<and> bones sk = map (boneOf object) bs
        \<and> (\<forall>b \<in> set bs. getObjectByProperty object b = None \<longrightarrow>
             ConsoleWarn (''THREE.ObjectLoader: Not found Bone whose uuid is '' @ str b) \<in> set (console st')))"

text \<open>The console of the second state extends that of the first.\<close>

definition grows :: "state \<Rightarrow> state \<Rightarrow> bool" where
  "grows st st' \<longleftrightarrow> (\<exists>extra. console st' = console st @ extra)"

subsection \<open>Concrete records\<close>

text \<open>A Program whose first scene has a physics world without gravity, followed by an
  ordinary group.\<close>

definition brokenScene :: NodeData where
  "brokenScene =
     NodeData ((blank ''Scene'')\<lparr>d_uuid := Some ''scene'',
        d_world := Some \<lparr>w_gravity = None, w_solver = None\<rparr>\<rparr>) None None"

definition brokenProject :: NodeData where
  "brokenProject =
     NodeData ((blank ''Program'')\<lparr>d_uuid := Some ''program''\<rparr>)
       (Some [brokenScene, NodeData ((blank ''Group'')\<lparr>d_uuid := Some ''group''\<rparr>) None None])
       None"

text \<open>A Scene that lists two cameras that no longer exist and one that does.\<close>

definition staleCameras :: NodeData where
  "staleCameras =
     NodeData ((blank ''Scene'')\<lparr>d_uuid := Some ''scene'',
        d_cameras := Some [''gone1'', ''gone2'', ''cam'']\<rparr>)
       (Some [NodeData ((blank ''PerspectiveCamera'')\<lparr>d_uuid := Some ''cam''\<rparr>) None None])
       None"


text \<open>A group with a matrix and an explicit scale, and nothing else.\<close>

definition movedGroup :: fields where
  "movedGroup =
     (blank ''Group'')\<lparr>d_uuid := Some ''group'',
        d_matrix := Some [1, 0, 0, 0, 0, 1, 0, 0, 0, 0, 1, 0, 5, 6, 7, 1],
        d_scale := Some [2, 2, 2]\<rparr>"

definition movedGroupObject :: node where
  "movedGroupObject =
     Node ((newObject Container)\<lparr>uuid := Some ''group'', name := None, position := [5, 6, 7],
        scale := [2, 2, 2], visible := False\<rparr>) []"




text \<open>A rig: one bone, a skeleton that names the bone and a bone that does not exist, a
  skinned mesh bound to that skeleton and one that names a skeleton nobody declared.\<close>

definition identity16 :: numbers where
  "identity16 = [1, 0, 0, 0, 0, 1, 0, 0, 0, 0, 1, 0, 0, 0, 0, 1]"

definition rigSkeletons :: "skeletondata list" where
  "rigSkeletons =
     [\<lparr>sk_uuid = Some ''sk1'', sk_bones = Some [Some ''bone1'', Some ''ghost''],
       sk_boneInverses = Some [identity16, identity16]\<rparr>]"

definition rig :: fields where
  "rig = (blank ''Group'')\<lparr>d_uuid := Some ''rig'', d_skeletons := Some rigSkeletons\<rparr>"

definition rigChildren :: "NodeData list" where
  "rigChildren =
     [NodeData ((blank ''Bone'')\<lparr>d_uuid := Some ''bone1''\<rparr>) None None,
      NodeData ((blank ''SkinnedMesh'')\<lparr>d_uuid := Some ''mesh1'', d_geometry := Some ''geo'',
         d_skeleton := Some ''sk1''\<rparr>) None None,
      NodeData ((blank ''SkinnedMesh'')\<lparr>d_uuid := Some ''mesh2'', d_geometry := Some ''geo'',
         d_skeleton := Some ''nobody''\<rparr>) None None]"

definition rigLoader :: state where
  "rigLoader = emptyLoader\<lparr>geometries := [(''geo'', \<lparr>g_uuid = Some ''geo'', g_bones = None\<rparr>)]\<rparr>"

definition rigSkeleton :: skeleton where
  "rigSkeleton = \<lparr>bones = [TreeBone [0], NewBone], boneInverses = [identity16, identity16]\<rparr>"

definition rigConsole :: "logentry list" where
  "rigConsole =
     [ConsoleWarn ''THREE.ObjectLoader: Not found Bone whose uuid is ghost'',
      ConsoleWarn ''THREE.ObjectLoader: Not found Skeleton whose uuid is nobody'']"

definition rigObject :: node where
  "rigObject =
     Node ((newObject Container)\<lparr>uuid := Some ''rig'', name := None, visible := False\<rparr>)
       [Node ((newObject Bone)\<lparr>uuid := Some ''bone1'', name := None, visible := False\<rparr>) [],
        Node ((newObject SkinnedMesh)\<lparr>uuid := Some ''mesh1'', name := None, visible := False,
                boundSkeleton := Some rigSkeleton\<rparr>) [],
        Node ((newObject SkinnedMesh)\<lparr>uuid := Some ''mesh2'', name := None, visible := False\<rparr>) []]"






section \<open>Properties\<close>

declare parseObject.simps [simp del]

declare parse.simps [simp del]

subsection \<open>Which stage writes which field\<close>

lemma add_simps [simp]:
  "attrs (add object child) = attrs object"
  "children (add object child) = children object @ [child]"
  by (simp_all add: add_def)

lemma parseChildren_attrs:
  "parseChildren dec st obj l = (st', Inr obj') \<Longrightarrow> attrs obj' = attrs obj"
proof (induction l arbitrary: st obj)
  case Nil
  then show ?case by simp
next
  case (Cons c l)
  then show ?case
    by (auto split: prod.splits sum.splits)
qed

lemma universal_fields:
  "kind (universal a) = kind a" "uuid (universal a) = uuid a" "name (universal a) = name a"
  "visible (universal a) = visible a" "castShadow (universal a) = castShadow a"
  "receiveShadow (universal a) = receiveShadow a" "position (universal a) = position a"
  "rotation (universal a) = rotation a" "quaternion (universal a) = quaternion a"
  "scale (universal a) = scale a"
  by (simp_all add: universal_def)

lemma bindOne_universal: "universal (fst (bindOne sks a st)) = universal a"
  by (simp add: bindOne_def universal_def split: option.splits)

lemma traverse_root: "attrs (fst (traverse f obj st)) = fst (f (attrs obj) st)"
  by (cases obj) (simp split: prod.splits)

lemma bindSkeletons_universal:
  "universal (attrs (fst (bindSkeletons st obj sks))) = universal (attrs obj)"
  by (simp add: bindSkeletons_def traverse_root bindOne_universal)

lemma addLevel_simps [simp]:
  "children (addLevel object child d) = children object"
  "kind (attrs (addLevel object child d)) = kind (attrs object)"
  "uuid (attrs (addLevel object child d)) = uuid (attrs object)"
  "skeletonUUID (attrs (addLevel object child d)) = skeletonUUID (attrs object)"
  "universal (attrs (addLevel object child d)) = universal (attrs object)"
  by (simp_all add: addLevel_def universal_def)

lemma addLevels_frame:
  "addLevels object ls = Inr object' \<Longrightarrow>
     universal (attrs object') = universal (attrs object) \<and> children object' = children object"
proof (induction ls arbitrary: object)
  case Nil
  then show ?case by simp
next
  case (Cons level rest)
  then show ?case
    by (auto split: option.splits if_splits)
qed

lemma postProcess_frame:
  assumes "postProcess data object = Inr object'"
  shows "universal (attrs object') = universal (attrs object) \<and> children object' = children object"
proof (cases "d_type data = ''LOD''")
  case True
  with assms show ?thesis
    by (auto simp: postProcess_def dest: addLevels_frame split: option.splits)
next
  case False
  with assms show ?thesis
    by (auto simp: postProcess_def universal_def split: if_splits)
qed

lemma staticMatrix_frame [simp]:
  "universal (attrs (staticMatrix data object)) = universal (attrs object)"
  "children (staticMatrix data object) = children object"
  by (simp_all add: staticMatrix_def universal_def split: option.splits)

lemma animationBlock_frame [simp]:
  "universal (attrs (animationBlock data object)) = universal (attrs object)"
  "children (animationBlock data object) = children object"
  by (simp_all add: animationBlock_def universal_def split: option.splits)

lemma skeletonBlock_universal:
  assumes "skeletonBlock st data object = (st', Inr object')"
  shows "universal (attrs object') = universal (attrs object)"
proof (cases "d_skeletons data")
  case None
  with assms show ?thesis by (simp add: skeletonBlock_def)
next
  case (Some json)
  with assms obtain st1 sks where "bindSkeletons st1 object sks = (object', st')"
    by (auto simp: skeletonBlock_def split: prod.splits sum.splits)
  then have "object' = fst (bindSkeletons st1 object sks)" by simp
  then show ?thesis by (simp add: bindSkeletons_universal)
qed

lemma finishObject_stages:
  assumes "finishObject st data object = (st', Inr object')"
  obtains mid where "skeletonBlock st data (staticMatrix data object) = (st', Inr mid)"
    and "postProcess data (animationBlock data mid) = Inr object'"
  using assms by (auto simp: finishObject_def split: prod.splits sum.splits)

lemma finishObject_universal:
  assumes "finishObject st data object = (st', Inr object')"
  shows "universal (attrs object') = universal (attrs object)"
proof -
  from assms obtain mid where 1: "skeletonBlock st data (staticMatrix data object) = (st', Inr mid)"
    and 2: "postProcess data (animationBlock data mid) = Inr object'"
    by (rule finishObject_stages)
  from skeletonBlock_universal[OF 1] postProcess_frame[OF 2] show ?thesis by simp
qed

lemma commonIdentity_fields [simp]:
  "kind (commonIdentity data a) = kind a"
  "uuid (commonIdentity data a) = d_uuid data"
  "name (commonIdentity data a) = d_name data"
  "position (commonIdentity data a) = position a"
  "rotation (commonIdentity data a) = rotation a"
  "quaternion (commonIdentity data a) = quaternion a"
  "scale (commonIdentity data a) = scale a"
  by (simp_all add: commonIdentity_def Let_def split: option.splits)

lemma commonTransform_fields [simp]:
  "kind (commonTransform dec data a) = kind a"
  "uuid (commonTransform dec data a) = uuid a"
  "name (commonTransform dec data a) = name a"
  by (simp_all add: commonTransform_def Let_def split: option.splits prod.splits)

lemma commonShadow_fields:
  assumes "commonShadow data a0 = Inr a"
  shows "kind a = kind a0" "uuid a = uuid a0" "name a = name a0"
    "position a = position a0" "rotation a = rotation a0"
    "quaternion a = quaternion a0" "scale a = scale a0"
    "visible a = (d_visible data = Some True)"
    "castShadow a = (d_castShadow data = Some True)"
    "receiveShadow a = (d_receiveShadow data = Some True)"
  using assms
  by (auto simp: commonShadow_def Let_def split: if_splits option.splits)

text \<open>A call of \<open>parseObject\<close> that returns went through the switch, the universal pass,
  the children and the finishing steps, in this order.\<close>

lemma parseObject_stages:
  assumes "parseObject dec st (NodeData data cs dc) = (st', Inr object)"
  obtains st1 thrown a0 st2 a st3 kids where
    "tryConstruct st1 data thrown = (a0, st2)"
    "d_type data \<noteq> ''Scene'' \<or> dc = None \<longrightarrow> st1 = st \<and> thrown = None"
    "applyCommon dec data a0 = Inr a"
    "(case cs of None \<Rightarrow> (st2, Inr (Node a [])) | Some l \<Rightarrow> parseChildren dec st2 (Node a []) l)
       = (st3, Inr (Node a kids))"
    "finishObject st3 data (Node a kids) = (st', Inr object)"
proof -
  define pre where "pre =
    (if d_type data = ''Scene'' then
       (case dc of None \<Rightarrow> (st, None)
        | Some doc \<Rightarrow>
            (case parse dec False st doc of
               (st1, Inl e) \<Rightarrow> (st1, Some e)
             | (st1, Inr cam) \<Rightarrow> (st1, None)))
     else (st, None))"
  obtain st1 thrown where pre: "pre = (st1, thrown)" by (cases pre)
  have same: "st1 = st \<and> thrown = None" if "d_type data \<noteq> ''Scene'' \<or> dc = None"
    using that pre by (auto simp: pre_def split: if_splits)
  obtain a0 st2 where tc: "tryConstruct st1 data thrown = (a0, st2)"
    by (cases "tryConstruct st1 data thrown")
  define kidsr where "kidsr a =
    (case cs of None \<Rightarrow> (st2, Inr (Node a [])) | Some l \<Rightarrow> parseChildren dec st2 (Node a []) l)" for a
  have unf: "parseObject dec st (NodeData data cs dc) =
    (case applyCommon dec data a0 of
       Inl e \<Rightarrow> (st2, Inl e)
     | Inr a \<Rightarrow>
         (case kidsr a of
            (st3, Inl e) \<Rightarrow> (st3, Inl e)
          | (st3, Inr obj) \<Rightarrow> finishObject st3 data obj))"
    unfolding parseObject.simps pre_def[symmetric] pre kidsr_def by (simp add: tc)
  from assms unf obtain a where ac: "applyCommon dec data a0 = Inr a"
    by (cases "applyCommon dec data a0") auto
  obtain st3 r where kr: "kidsr a = (st3, r)" by (cases "kidsr a")
  from assms unf ac kr obtain obj where r: "r = Inr obj"
    and fin: "finishObject st3 data obj = (st', Inr object)"
    by (cases r) auto
  have "attrs obj = a"
    using kr r parseChildren_attrs[of dec st2 "Node a []" _ st3 obj]
    by (auto simp: kidsr_def split: option.splits)
  then have obj: "obj = Node a (children obj)" by (cases obj) simp
  show thesis
  proof (rule that[of st1 thrown a0 st2 a st3 "children obj"])
    show "tryConstruct st1 data thrown = (a0, st2)" by (rule tc)
    show "d_type data \<noteq> ''Scene'' \<or> dc = None \<longrightarrow> st1 = st \<and> thrown = None"
      using same by blast
    show "applyCommon dec data a0 = Inr a" by (rule ac)
    show "(case cs of None \<Rightarrow> (st2, Inr (Node a [])) | Some l \<Rightarrow> parseChildren dec st2 (Node a []) l)
       = (st3, Inr (Node a (children obj)))"
      using kr r obj by (simp add: kidsr_def)
    show "finishObject st3 data (Node a (children obj)) = (st', Inr object)"
      using fin obj by simp
  qed
qed

text \<open>The universal fields of the object returned are those the universal pass wrote.\<close>

lemma parseObject_common:
  assumes "parseObject dec st (NodeData data cs dc) = (st', Inr object)"
  obtains a0 a where "applyCommon dec data a0 = Inr a"
    "universal (attrs object) = universal a"
    "d_type data \<noteq> ''Scene'' \<or> dc = None \<longrightarrow> a0 = fst (tryConstruct st data None)"
proof -
  from assms obtain st1 thrown a0 st2 a st3 kids where
    tc: "tryConstruct st1 data thrown = (a0, st2)"
    and same: "d_type data \<noteq> ''Scene'' \<or> dc = None \<longrightarrow> st1 = st \<and> thrown = None"
    and ac: "applyCommon dec data a0 = Inr a"
    and "(case cs of None \<Rightarrow> (st2, Inr (Node a [])) | Some l \<Rightarrow> parseChildren dec st2 (Node a []) l)
       = (st3, Inr (Node a kids))"
    and fin: "finishObject st3 data (Node a kids) = (st', Inr object)"
    by (rule parseObject_stages)
  from finishObject_universal[OF fin] have "universal (attrs object) = universal a" by simp
  moreover have "d_type data \<noteq> ''Scene'' \<or> dc = None \<longrightarrow> a0 = fst (tryConstruct st data None)"
    using same tc by auto
  ultimately show thesis using ac that by blast
qed


subsection \<open>The skeleton functions write to the console only\<close>

lemma consoleOnly_refl [simp]: "consoleOnly st st"
  unfolding consoleOnly_def by (rule exI[of _ "[]"]) simp

lemma consoleOnly_trans: "consoleOnly a b \<Longrightarrow> consoleOnly b c \<Longrightarrow> consoleOnly a c"
  unfolding consoleOnly_def by auto

lemma consoleOnly_warn [simp]: "consoleOnly st (warn msg st)"
  unfolding consoleOnly_def warn_def by blast

lemma consoleOnly_fields:
  assumes "consoleOnly st st'"
  shows "loaded st' = loaded st" "geometries st' = geometries st"
    "\<exists>extra. console st' = console st @ extra"
  using assms unfolding consoleOnly_def by auto

lemma parseBones_consoleOnly:
  "parseBones st object bs ms j acc1 acc2 = (st', r) \<Longrightarrow> consoleOnly st st'"
proof (induction bs arbitrary: st j acc1 acc2)
  case Nil
  then show ?case by simp
next
  case (Cons b bs)
  show ?case
  proof (cases "getObjectByProperty object b")
    case None
    with Cons.prems Cons.IH[of "warn (''THREE.ObjectLoader: Not found Bone whose uuid is '' @ str b) st"]
    show ?thesis
      by (auto split: option.splits if_splits intro: consoleOnly_trans[OF consoleOnly_warn])
  next
    case (Some p)
    with Cons.prems Cons.IH[of st] show ?thesis
      by (auto split: option.splits if_splits)
  qed
qed

lemma parseSkeletonsFrom_consoleOnly:
  "parseSkeletonsFrom st object json acc = (st', r) \<Longrightarrow> consoleOnly st st'"
proof (induction json arbitrary: st acc)
  case Nil
  then show ?case by simp
next
  case (Cons s json)
  then show ?case
    by (auto split: option.splits prod.splits sum.splits
        dest!: parseBones_consoleOnly intro: consoleOnly_trans)
qed

lemma parseSkeletons_consoleOnly:
  "parseSkeletons st json object = (st', r) \<Longrightarrow> consoleOnly st st'"
  by (auto simp: parseSkeletons_def split: option.splits dest: parseSkeletonsFrom_consoleOnly)

lemma bindOne_consoleOnly: "consoleOnly st (snd (bindOne sks a st))"
  by (simp add: bindOne_def split: option.splits)

lemma traverseAll_consoleOnly:
  assumes "\<And>c s. c \<in> set cs \<Longrightarrow> consoleOnly s (snd (traverse f c s))"
  shows "consoleOnly st (snd (traverseAll f cs st))"
  using assms
proof (induction cs arbitrary: st)
  case Nil
  then show ?case by simp
next
  case (Cons c cs)
  obtain c' st1 where c: "traverse f c st = (c', st1)" by (cases "traverse f c st")
  obtain cs' st2 where t: "traverseAll f cs st1 = (cs', st2)" by (cases "traverseAll f cs st1")
  have "consoleOnly st st1" using Cons.prems[of c st] c by simp
  moreover have "consoleOnly st1 st2" using Cons.IH[of st1] Cons.prems t by simp
  ultimately show ?case using c t by (auto intro: consoleOnly_trans)
qed

lemma traverse_consoleOnly:
  assumes "\<And>a s. consoleOnly s (snd (f a s))"
  shows "consoleOnly st (snd (traverse f obj st))"
proof (induction obj arbitrary: st)
  case (Node a cs)
  obtain a' st1 where f: "f a st = (a', st1)" by (cases "f a st")
  obtain cs' st2 where t: "traverseAll f cs st1 = (cs', st2)" by (cases "traverseAll f cs st1")
  have "consoleOnly st st1" using assms[of st a] f by simp
  moreover have "consoleOnly st1 st2"
    using traverseAll_consoleOnly[of cs f st1] Node.IH t by simp
  ultimately show ?case using f t by (auto intro: consoleOnly_trans)
qed

lemma bindSkeletons_consoleOnly: "consoleOnly st (snd (bindSkeletons st obj sks))"
  by (simp add: bindSkeletons_def traverse_consoleOnly bindOne_consoleOnly)

lemma skeletonBlock_consoleOnly:
  assumes "skeletonBlock st data object = (st', r)"
  shows "consoleOnly st st'"
proof (cases "d_skeletons data")
  case None
  with assms show ?thesis by (simp add: skeletonBlock_def)
next
  case (Some json)
  obtain st1 r1 where p: "parseSkeletons st (Some json) object = (st1, r1)"
    by (cases "parseSkeletons st (Some json) object")
  have 1: "consoleOnly st st1" using p by (rule parseSkeletons_consoleOnly)
  show ?thesis
  proof (cases r1)
    case (Inl e)
    with assms Some p 1 show ?thesis by (simp add: skeletonBlock_def)
  next
    case (Inr sks)
    with assms Some p have "st' = snd (bindSkeletons st1 object sks)"
      by (auto simp: skeletonBlock_def split: prod.splits)
    with 1 bindSkeletons_consoleOnly[of st1 object sks] show ?thesis
      by (auto intro: consoleOnly_trans)
  qed
qed

lemma finishObject_consoleOnly:
  assumes "finishObject st data object = (st', r)"
  shows "consoleOnly st st'"
proof -
  obtain st1 r1 where s: "skeletonBlock st data (staticMatrix data object) = (st1, r1)"
    by (cases "skeletonBlock st data (staticMatrix data object)")
  with assms have "st' = st1" by (auto simp: finishObject_def split: sum.splits)
  with skeletonBlock_consoleOnly[OF s] show ?thesis by simp
qed

lemma consoleOnly_append [simp]: "consoleOnly st (st\<lparr>console := console st @ extra\<rparr>)"
  unfolding consoleOnly_def by blast

lemma tryConstruct_consoleOnly: "tryConstruct st data thrown = (a, st') \<Longrightarrow> consoleOnly st st'"
  by (auto simp: tryConstruct_def split: sum.splits)

lemma parseAll_loaded [simp]: "loaded (parseAll st json) = loaded st"
  by (simp add: parseAll_def parseResources_def parseShape_def parseGeometries_def
      parseImages_def parseVideos_def parseAudio_def parseFonts_def parseTextures_def
      parseMaterials_def)

lemma loaded_calls:
  shows "\<And>st' r. parseObject dec st nd = (st', r) \<Longrightarrow> loaded st' = loaded st"
    and "\<And>st' r. parseChildren dec st obj l = (st', r) \<Longrightarrow> loaded st' = loaded st"
    and "\<And>st' r. parse dec onLoad st doc = (st', r) \<Longrightarrow>
           loaded st' = loaded st @ onLoadCalls onLoad doc r"
proof (induction dec st nd and dec st obj l and dec onLoad st doc
    rule: parseObject_parseChildren_parse.induct)
  case (1 dec st data cs dc)
  define pre where "pre =
    (if d_type data = ''Scene'' then
       (case dc of None \<Rightarrow> (st, None)
        | Some doc \<Rightarrow>
            (case parse dec False st doc of
               (st1, Inl e) \<Rightarrow> (st1, Some e)
             | (st1, Inr cam) \<Rightarrow> (st1, None)))
     else (st, None))"
  obtain st1 thrown where pre: "pre = (st1, thrown)" by (cases pre)
  have l1: "loaded st1 = loaded st"
  proof (cases "d_type data = ''Scene'' \<and> dc \<noteq> None")
    case True
    then obtain doc where doc: "dc = Some doc" by auto
    obtain s0 r0 where p: "parse dec False st doc = (s0, r0)" by (cases "parse dec False st doc")
    from "1.IH"(1)[OF _ doc p] True have "loaded s0 = loaded st"
      by (simp add: onLoadCalls_def split: sum.splits)
    moreover have "st1 = s0" using pre True doc p by (auto simp: pre_def split: sum.splits)
    ultimately show ?thesis by simp
  next
    case False
    with pre show ?thesis by (auto simp: pre_def split: if_splits)
  qed
  obtain a0 st2 where tc: "tryConstruct st1 data thrown = (a0, st2)"
    by (cases "tryConstruct st1 data thrown")
  have l2: "loaded st2 = loaded st1"
    using tryConstruct_consoleOnly[OF tc] by (rule consoleOnly_fields)
  define kidsr where "kidsr a =
    (case cs of None \<Rightarrow> (st2, Inr (Node a [])) | Some l \<Rightarrow> parseChildren dec st2 (Node a []) l)" for a
  have unf: "parseObject dec st (NodeData data cs dc) =
    (case applyCommon dec data a0 of
       Inl e \<Rightarrow> (st2, Inl e)
     | Inr a \<Rightarrow>
         (case kidsr a of
            (st3, Inl e) \<Rightarrow> (st3, Inl e)
          | (st3, Inr obj) \<Rightarrow> finishObject st3 data obj))"
    unfolding parseObject.simps pre_def[symmetric] pre kidsr_def by (simp add: tc)
  show ?case
  proof (cases "applyCommon dec data a0")
    case (Inl e)
    with unf "1.prems" l1 l2 show ?thesis by simp
  next
    case (Inr a)
    obtain st3 r3 where kr: "kidsr a = (st3, r3)" by (cases "kidsr a")
    have l3: "loaded st3 = loaded st2"
    proof (cases cs)
      case None
      with kr show ?thesis by (simp add: kidsr_def)
    next
      case (Some l)
      with kr have "parseChildren dec st2 (Node a []) l = (st3, r3)" by (simp add: kidsr_def)
      from "1.IH"(2)[OF _ _ Inr Some this, of st1 thrown] pre tc show ?thesis
        by (simp add: pre_def)
    qed
    show ?thesis
    proof (cases r3)
      case (Inl e)
      with unf "1.prems" Inr kr l1 l2 l3 show ?thesis by simp
    next
      case (Inr obj)
      with unf "1.prems" \<open>applyCommon dec data a0 = Inr a\<close> kr
      have "finishObject st3 data obj = (st', r)" by simp
      from finishObject_consoleOnly[OF this] have "loaded st' = loaded st3"
        by (rule consoleOnly_fields)
      with l1 l2 l3 show ?thesis by simp
    qed
  qed
next
  case (2 dec st object)
  then show ?case by simp
next
  case (3 dec st object c cs)
  obtain st1 r1 where p: "parseObject dec st c = (st1, r1)" by (cases "parseObject dec st c")
  from "3.IH"(1)[OF p] have l1: "loaded st1 = loaded st" .
  show ?case
  proof (cases r1)
    case (Inl e)
    with p "3.prems" l1 show ?thesis by simp
  next
    case (Inr child)
    with p "3.prems" have "parseChildren dec st1 (add object child) cs = (st', r)" by simp
    from "3.IH"(2)[OF p[symmetric] Inr this] l1 show ?thesis by simp
  qed
next
  case (4 dec onLoad st json obj)
  show ?case
  proof (cases obj)
    case None
    with "4.prems" show ?thesis
      by (auto simp: parse.simps onLoadCalls_def)
  next
    case (Some data)
    obtain st2 r2 where p: "parseObject dec (parseAll st json) data = (st2, r2)"
      by (cases "parseObject dec (parseAll st json) data")
    from "4.IH"[OF refl Some p] have l: "loaded st2 = loaded st" by simp
    from "4.prems" Some p l show ?thesis
      by (cases r2) (auto simp: parse.simps onLoadCalls_def split: option.splits)
  qed
qed

lemma parseAnimationsFrom_keeps: "parseAnimationsFrom anims array = anims"
  by (induction array arbitrary: anims) (simp_all add: push_def Let_def)

lemma parseAnimations_empty: "parseAnimations array = []"
  by (simp add: parseAnimations_def parseAnimationsFrom_keeps)

subsection \<open>Lookup by UUID and what the later stages write\<close>

lemma getObjectByProperty_same:
  "uuid (attrs a) = uuid (attrs b) \<Longrightarrow> children a = children b \<Longrightarrow>
     getObjectByProperty a v = getObjectByProperty b v"
  by (cases a; cases b) simp

lemma getObjectByProperty_addLevel [simp]:
  "getObjectByProperty (addLevel object child d) v = getObjectByProperty object v"
  by (rule getObjectByProperty_same) simp_all

lemma addLevels_registers:
  "kind (attrs object) = LOD \<Longrightarrow>
   addLevels object ls =
     Inr (Node ((attrs object)\<lparr>levels := levels (attrs object) @
            List.map_filter (\<lambda>level. map_option (\<lambda>child. (child, l_distance level))
               (getObjectByProperty object (l_object level))) ls\<rparr>) (children object))"
proof (induction ls arbitrary: object)
  case Nil
  then show ?case by (cases object) (simp add: List.map_filter_simps)
next
  case (Cons level rest)
  show ?case
  proof (cases "getObjectByProperty object (l_object level)")
    case None
    with Cons show ?thesis by (simp add: List.map_filter_simps)
  next
    case (Some child)
    have k: "kind (attrs (addLevel object child (l_distance level))) = LOD"
      using Cons.prems by simp
    show ?thesis
      using Some Cons.prems Cons.IH[OF k]
      by (simp add: List.map_filter_simps) (simp add: addLevel_def)
  qed
qed


lemma common_later_fields [simp]:
  "levels (commonIdentity data a) = levels a"
  "cameras (commonIdentity data a) = cameras a"
  "skeletonUUID (commonIdentity data a) = skeletonUUID a"
  "boundSkeleton (commonIdentity data a) = boundSkeleton a"
  "levels (commonTransform dec data a) = levels a"
  "cameras (commonTransform dec data a) = cameras a"
  "skeletonUUID (commonTransform dec data a) = skeletonUUID a"
  "boundSkeleton (commonTransform dec data a) = boundSkeleton a"
  by (simp_all add: commonIdentity_def commonTransform_def Let_def split: option.splits prod.splits)

lemma commonShadow_later_fields:
  assumes "commonShadow data a0 = Inr a"
  shows "levels a = levels a0" "cameras a = cameras a0" "skeletonUUID a = skeletonUUID a0"
    "boundSkeleton a = boundSkeleton a0"
  using assms
  by (auto simp: commonShadow_def Let_def split: if_splits option.splits)

lemma applyCommon_later_fields:
  assumes "applyCommon dec data a0 = Inr a"
  shows "kind a = kind a0" "levels a = levels a0" "cameras a = cameras a0"
    "skeletonUUID a = skeletonUUID a0" "boundSkeleton a = boundSkeleton a0"
    "uuid a = d_uuid data" "name a = d_name data"
proof -
  from assms have cs: "commonShadow data (commonTransform dec data (commonIdentity data a0)) = Inr a"
    by (simp add: applyCommon_def)
  from commonShadow_later_fields[OF cs] commonShadow_fields(1-3)[OF cs]
  show "kind a = kind a0" "levels a = levels a0" "cameras a = cameras a0"
    "skeletonUUID a = skeletonUUID a0" "boundSkeleton a = boundSkeleton a0"
    "uuid a = d_uuid data" "name a = d_name data"
    by simp_all
qed



lemma postProcess_writes:
  assumes "postProcess data object = Inr object'"
  shows "\<exists>c l. attrs object' = (attrs object)\<lparr>cameras := c, levels := l\<rparr>"
    and "children object' = children object"
proof -
  show "children object' = children object"
    using postProcess_frame[OF assms] by simp
  show "\<exists>c l. attrs object' = (attrs object)\<lparr>cameras := c, levels := l\<rparr>"
  proof (cases "d_type data = ''LOD''")
    case True
    with assms obtain ls where ls: "addLevels object ls = Inr object'"
      by (auto simp: postProcess_def split: option.splits)
    show ?thesis
    proof (cases "kind (attrs object) = LOD")
      case True
      from addLevels_registers[OF True, of ls] ls
      have "attrs object' = (attrs object)\<lparr>cameras := cameras (attrs object),
          levels := levels (attrs object) @
            List.map_filter (\<lambda>level. map_option (\<lambda>child. (child, l_distance level))
               (getObjectByProperty object (l_object level))) ls\<rparr>"
        by auto
      then show ?thesis by blast
    next
      case False
      have "addLevels object ls = Inr object' \<Longrightarrow> object' = object"
        using False by (induction ls) (auto split: option.splits)
      with ls have "attrs object' = (attrs object)\<lparr>cameras := cameras (attrs object),
          levels := levels (attrs object)\<rparr>" by simp
      then show ?thesis by blast
    qed
  next
    case False
    show ?thesis
    proof (cases "d_type data = ''Scene''")
      case True
      with assms have "attrs object' = (attrs object)\<lparr>
          cameras := resolveCameras object 0 (cameras (attrs object)),
          levels := levels (attrs object)\<rparr>"
        by (auto simp: postProcess_def split: if_splits)
      then show ?thesis by blast
    next
      case notScene: False
      with False assms have "attrs object' = (attrs object)\<lparr>cameras := cameras (attrs object),
          levels := levels (attrs object)\<rparr>"
        by (auto simp: postProcess_def split: if_splits)
      then show ?thesis by blast
    qed
  qed
qed

lemma static_animation_fields [simp]:
  "kind (attrs (staticMatrix data object)) = kind (attrs object)"
  "uuid (attrs (staticMatrix data object)) = uuid (attrs object)"
  "levels (attrs (staticMatrix data object)) = levels (attrs object)"
  "skeletonUUID (attrs (staticMatrix data object)) = skeletonUUID (attrs object)"
  "kind (attrs (animationBlock data object)) = kind (attrs object)"
  "uuid (attrs (animationBlock data object)) = uuid (attrs object)"
  "levels (attrs (animationBlock data object)) = levels (attrs object)"
  "skeletonUUID (attrs (animationBlock data object)) = skeletonUUID (attrs object)"
  by (simp_all add: staticMatrix_def animationBlock_def split: option.splits)

lemma construct_LOD: "d_type data = ''LOD'' \<Longrightarrow> construct st data = Inr (newObject LOD)"
  by (simp add: construct_def)

subsection \<open>Every node of a traversed tree went through the callback\<close>

lemma traverseAll_subnodes:
  assumes "\<And>c s n'. c \<in> set cs \<Longrightarrow> n' \<in> set (subnodes (fst (traverse f c s))) \<Longrightarrow> P (attrs n')"
  shows "n' \<in> set (concat (map subnodes (fst (traverseAll f cs st)))) \<Longrightarrow> P (attrs n')"
  using assms
proof (induction cs arbitrary: st)
  case Nil
  then show ?case by simp
next
  case (Cons c cs)
  obtain c' st1 where c: "traverse f c st = (c', st1)" by (cases "traverse f c st")
  obtain cs' st2 where t: "traverseAll f cs st1 = (cs', st2)" by (cases "traverseAll f cs st1")
  from Cons.prems(1) c t have "n' \<in> set (subnodes c') \<or> n' \<in> set (concat (map subnodes cs'))"
    by simp
  then show ?case
  proof
    assume "n' \<in> set (subnodes c')"
    with Cons.prems(2)[of c n' st] c show ?thesis by simp
  next
    assume "n' \<in> set (concat (map subnodes cs'))"
    with t have "n' \<in> set (concat (map subnodes (fst (traverseAll f cs st1))))" by simp
    moreover have "P (attrs m)" if "c0 \<in> set cs" "m \<in> set (subnodes (fst (traverse f c0 s)))" for c0 m s
      using Cons.prems(2)[of c0 m s] that by simp
    ultimately show ?thesis using Cons.IH[of st1] by blast
  qed
qed

lemma traverse_subnodes:
  assumes "\<And>a s. P (fst (f a s))"
  shows "n' \<in> set (subnodes (fst (traverse f obj st))) \<Longrightarrow> P (attrs n')"
proof (induction obj arbitrary: st n')
  case (Node a cs)
  obtain a' st1 where f: "f a st = (a', st1)" by (cases "f a st")
  obtain cs' st2 where t: "traverseAll f cs st1 = (cs', st2)" by (cases "traverseAll f cs st1")
  from Node.prems f t have "n' = Node a' cs' \<or> n' \<in> set (concat (map subnodes cs'))"
    by simp
  then show ?case
  proof
    assume "n' = Node a' cs'"
    with assms[of a st] f show ?thesis by simp
  next
    assume "n' \<in> set (concat (map subnodes cs'))"
    with traverseAll_subnodes[of cs f P n' st1] Node.IH t show ?thesis by simp
  qed
qed

lemma bindOne_clears:
  "kind (fst (bindOne sks a s)) = SkinnedMesh \<longrightarrow> skeletonUUID (fst (bindOne sks a s)) = None"
  by (simp add: bindOne_def split: option.splits)

lemma update_nonempty: "AList.update k v al \<noteq> []"
  by (cases al) auto

lemma parseSkeletonsFrom_nonempty:
  "parseSkeletonsFrom st object json acc = (st', Inr sks) \<Longrightarrow> json \<noteq> [] \<or> acc \<noteq> [] \<Longrightarrow> sks \<noteq> []"
proof (induction json arbitrary: st acc)
  case Nil
  then show ?case by simp
next
  case (Cons s json)
  then show ?case
    by (auto split: option.splits prod.splits sum.splits simp: update_nonempty)
qed

lemma subnodes_root: "set (subnodes n) = insert n (\<Union>c \<in> set (children n). set (subnodes c))"
  by (cases n) auto

subsection \<open>Skeletons\<close>

lemma consoleOnly_mono: "consoleOnly a b \<Longrightarrow> x \<in> set (console a) \<Longrightarrow> x \<in> set (console b)"
  unfolding consoleOnly_def by auto

lemma warn_logged [simp]: "ConsoleWarn msg \<in> set (console (warn msg st))"
  by (simp add: warn_def)

lemma parseBones_ok:
  assumes "bs = [] \<or> (\<exists>ms. inv0 = Some ms \<and> j + length bs \<le> length ms)"
  shows "\<exists>st' invs'. parseBones st object bs inv0 j acc1 acc2
             = (st', Inr (acc1 @ map (boneOf object) bs, invs'))
     \<and> consoleOnly st st'
     \<and> (\<forall>b \<in> set bs. getObjectByProperty object b = None \<longrightarrow>
           ConsoleWarn (''THREE.ObjectLoader: Not found Bone whose uuid is '' @ str b) \<in> set (console st'))"
  using assms
proof (induction bs arbitrary: st j acc1 acc2)
  case Nil
  then show ?case by simp
next
  case (Cons b bs)
  from Cons.prems obtain ms where ms: "inv0 = Some ms" "j + length (b # bs) \<le> length ms"
    by auto
  define st1 where "st1 = (case getObjectByProperty object b of
      None \<Rightarrow> warn (''THREE.ObjectLoader: Not found Bone whose uuid is '' @ str b) st | Some p \<Rightarrow> st)"
  have c1: "consoleOnly st st1" by (simp add: st1_def split: option.splits)
  have w1: "getObjectByProperty object b = None \<longrightarrow>
      ConsoleWarn (''THREE.ObjectLoader: Not found Bone whose uuid is '' @ str b) \<in> set (console st1)"
    by (simp add: st1_def)
  have step: "parseBones st object (b # bs) inv0 j acc1 acc2
      = parseBones st1 object bs inv0 (Suc j) (acc1 @ [boneOf object b]) (acc2 @ [take 16 (ms ! j)])"
    using ms by (simp add: st1_def boneOf_def push_def split: option.splits)
  have "bs = [] \<or> (\<exists>ms. inv0 = Some ms \<and> Suc j + length bs \<le> length ms)"
    using ms by simp
  from Cons.IH[OF this, of st1 "acc1 @ [boneOf object b]" "acc2 @ [take 16 (ms ! j)]"]
  obtain st' invs' where
    r: "parseBones st1 object bs inv0 (Suc j) (acc1 @ [boneOf object b]) (acc2 @ [take 16 (ms ! j)])
         = (st', Inr ((acc1 @ [boneOf object b]) @ map (boneOf object) bs, invs'))"
    and c2: "consoleOnly st1 st'"
    and w2: "\<forall>b \<in> set bs. getObjectByProperty object b = None \<longrightarrow>
           ConsoleWarn (''THREE.ObjectLoader: Not found Bone whose uuid is '' @ str b) \<in> set (console st')"
    by blast
  show ?case
  proof (intro exI[of _ st'] exI[of _ invs'] conjI)
    show "parseBones st object (b # bs) inv0 j acc1 acc2
        = (st', Inr (acc1 @ map (boneOf object) (b # bs), invs'))"
      using step r by simp
    show "consoleOnly st st'" using c1 c2 by (rule consoleOnly_trans)
    show "\<forall>b \<in> set (b # bs). getObjectByProperty object b = None \<longrightarrow>
           ConsoleWarn (''THREE.ObjectLoader: Not found Bone whose uuid is '' @ str b) \<in> set (console st')"
      using w1 w2 consoleOnly_mono[OF c2] by auto
  qed
qed

lemma wellFormedSkeleton_bones:
  assumes "wellFormedSkeleton s"
  obtains bs where "sk_bones s = Some bs"
    "bs = [] \<or> (\<exists>ms. sk_boneInverses s = Some ms \<and> 0 + length bs \<le> length ms)"
  using assms by (auto simp: wellFormedSkeleton_def split: option.splits)

lemma parseSkeletonsFrom_ok:
  assumes "list_all wellFormedSkeleton json"
  shows "\<exists>st' sks. parseSkeletonsFrom st object json acc = (st', Inr sks)
     \<and> consoleOnly st st'
     \<and> (\<forall>u. map_of acc u \<noteq> None \<longrightarrow> map_of sks u \<noteq> None)
     \<and> (\<forall>s \<in> set json. map_of sks (str (sk_uuid s)) \<noteq> None)
     \<and> (\<forall>u sk. map_of sks u = Some sk \<longrightarrow> map_of acc u = Some sk \<or> builtFrom object st' json u sk)"
  using assms
proof (induction json arbitrary: st acc)
  case Nil
  then show ?case by simp
next
  case (Cons s json)
  from Cons.prems have wf: "wellFormedSkeleton s" and rest: "list_all wellFormedSkeleton json"
    by simp_all
  from wf obtain bs where bs: "sk_bones s = Some bs"
    and len: "bs = [] \<or> (\<exists>ms. sk_boneInverses s = Some ms \<and> 0 + length bs \<le> length ms)"
    by (rule wellFormedSkeleton_bones)
  from parseBones_ok[OF len, of st object "[]" "[]"] obtain st1 invs where
    pb: "parseBones st object bs (sk_boneInverses s) 0 [] [] = (st1, Inr (map (boneOf object) bs, invs))"
    and c1: "consoleOnly st st1"
    and w1: "\<forall>b \<in> set bs. getObjectByProperty object b = None \<longrightarrow>
           ConsoleWarn (''THREE.ObjectLoader: Not found Bone whose uuid is '' @ str b) \<in> set (console st1)"
    by auto
  define sk0 where "sk0 = \<lparr>bones = map (boneOf object) bs, boneInverses = invs\<rparr>"
  define acc' where "acc' = AList.update (str (sk_uuid s)) sk0 acc"
  have step: "parseSkeletonsFrom st object (s # json) acc = parseSkeletonsFrom st1 object json acc'"
    using bs pb by (simp add: acc'_def sk0_def)
  from Cons.IH[OF rest, of st1 acc'] obtain st' sks where
    r: "parseSkeletonsFrom st1 object json acc' = (st', Inr sks)"
    and c2: "consoleOnly st1 st'"
    and dom: "\<forall>u. map_of acc' u \<noteq> None \<longrightarrow> map_of sks u \<noteq> None"
    and keys: "\<forall>s \<in> set json. map_of sks (str (sk_uuid s)) \<noteq> None"
    and built: "\<forall>u sk. map_of sks u = Some sk \<longrightarrow> map_of acc' u = Some sk \<or> builtFrom object st' json u sk"
    by blast
  have acc': "map_of acc' = (map_of acc)(str (sk_uuid s) \<mapsto> sk0)"
    by (simp add: acc'_def update_conv')
  have here: "builtFrom object st' (s # json) (str (sk_uuid s)) sk0"
    unfolding builtFrom_def using bs w1 consoleOnly_mono[OF c2]
    by (intro bexI[of _ s] exI[of _ bs]) (auto simp: sk0_def)
  have later: "builtFrom object st' (s # json) u sk" if "builtFrom object st' json u sk" for u sk
    using that unfolding builtFrom_def by auto
  show ?case
  proof (intro exI[of _ st'] exI[of _ sks] conjI)
    show "parseSkeletonsFrom st object (s # json) acc = (st', Inr sks)" using step r by simp
    show "consoleOnly st st'" using c1 c2 by (rule consoleOnly_trans)
    show "\<forall>u. map_of acc u \<noteq> None \<longrightarrow> map_of sks u \<noteq> None"
      using dom by (auto simp: acc')
    show "\<forall>s \<in> set (s # json). map_of sks (str (sk_uuid s)) \<noteq> None"
      using keys dom by (auto simp: acc')
    show "\<forall>u sk. map_of sks u = Some sk \<longrightarrow>
        map_of acc u = Some sk \<or> builtFrom object st' (s # json) u sk"
    proof (intro allI impI)
      fix u sk assume "map_of sks u = Some sk"
      with built have "map_of acc' u = Some sk \<or> builtFrom object st' json u sk" by blast
      then show "map_of acc u = Some sk \<or> builtFrom object st' (s # json) u sk"
      proof
        assume "map_of acc' u = Some sk"
        then show ?thesis using here by (auto simp: acc' split: if_splits)
      next
        assume "builtFrom object st' json u sk"
        then show ?thesis using later by blast
      qed
    qed
  qed
qed






subsection \<open>When parseObject returns\<close>


lemma applyCommon_total:
  "d_shadow data = None \<Longrightarrow> \<exists>a. applyCommon dec data a0 = Inr a"
  by (simp add: applyCommon_def commonShadow_def Let_def)

lemma parseChildren_base:
  "parseChildren dec st b l = (st', Inr r) \<Longrightarrow> \<exists>r'. parseChildren dec st b' l = (st', Inr r')"
proof (induction l arbitrary: st b b')
  case Nil
  then show ?case by simp
next
  case (Cons c l)
  obtain st1 r1 where p: "parseObject dec st c = (st1, r1)" by (cases "parseObject dec st c")
  show ?case
  proof (cases r1)
    case (Inl e)
    with p Cons.prems show ?thesis by simp
  next
    case (Inr child)
    with p Cons.prems have "parseChildren dec st1 (add b child) l = (st', Inr r)" by simp
    from Cons.IH[OF this, of "add b' child"] p Inr show ?thesis by simp
  qed
qed

lemma skeletonBlock_total:
  assumes "case d_skeletons data of None \<Rightarrow> True | Some json \<Rightarrow> list_all wellFormedSkeleton json"
  shows "\<exists>st' object'. skeletonBlock st data object = (st', Inr object')"
proof (cases "d_skeletons data")
  case None
  then show ?thesis by (simp add: skeletonBlock_def)
next
  case (Some json)
  with assms have "list_all wellFormedSkeleton json" by simp
  from parseSkeletonsFrom_ok[OF this, where st=st and object=object and acc="[]"]
  obtain st1 sks where "parseSkeletons st (Some json) object = (st1, Inr sks)"
    by (auto simp: parseSkeletons_def)
  with Some show ?thesis
    by (auto simp: skeletonBlock_def split: prod.splits)
qed

lemma parseObject_plain:
  assumes "d_type data \<noteq> ''Scene'' \<or> dc = None"
  shows "parseObject dec st (NodeData data cs dc) =
    (case tryConstruct st data None of
       (a0, st2) \<Rightarrow>
         (case applyCommon dec data a0 of
            Inl e \<Rightarrow> (st2, Inl e)
          | Inr a \<Rightarrow>
              (case (case cs of None \<Rightarrow> (st2, Inr (Node a []))
                     | Some l \<Rightarrow> parseChildren dec st2 (Node a []) l) of
                 (st3, Inl e) \<Rightarrow> (st3, Inl e)
               | (st3, Inr obj) \<Rightarrow> finishObject st3 data obj)))"
  using assms by (auto simp: parseObject.simps)

subsection \<open>The console only grows\<close>

lemma animations_replaced:
  assumes "parseObject dec st (NodeData data cs dc) = (st', Inr object)"
    and "d_animations data = Some array"
  shows "animations (attrs object) = Some []"
proof -
  from assms(1) obtain st1 thrown a0 st2 a st3 kids where
    "tryConstruct st1 data thrown = (a0, st2)"
    "d_type data \<noteq> ''Scene'' \<or> dc = None \<longrightarrow> st1 = st \<and> thrown = None"
    "applyCommon dec data a0 = Inr a"
    "(case cs of None \<Rightarrow> (st2, Inr (Node a [])) | Some l \<Rightarrow> parseChildren dec st2 (Node a []) l)
       = (st3, Inr (Node a kids))"
    and fin: "finishObject st3 data (Node a kids) = (st', Inr object)"
    by (rule parseObject_stages)
  from fin obtain mid where
    pp: "postProcess data (animationBlock data mid) = Inr object"
    by (rule finishObject_stages)
  from postProcess_writes(1)[OF pp] obtain c l where
    "attrs object = (attrs (animationBlock data mid))\<lparr>cameras := c, levels := l\<rparr>"
    by auto
  with assms(2) show ?thesis
    by (simp add: animationBlock_def parseAnimations_empty)
qed

lemma grows_refl [simp]: "grows st st"
  by (simp add: grows_def)

lemma grows_trans: "grows a b \<Longrightarrow> grows b c \<Longrightarrow> grows a c"
  unfolding grows_def by auto

lemma consoleOnly_grows: "consoleOnly a b \<Longrightarrow> grows a b"
  unfolding grows_def consoleOnly_def by auto

lemma grows_mono: "grows a b \<Longrightarrow> x \<in> set (console a) \<Longrightarrow> x \<in> set (console b)"
  unfolding grows_def by auto

lemma parseAll_console [simp]: "console (parseAll st json) = console st"
  by (simp add: parseAll_def parseResources_def parseShape_def parseGeometries_def
      parseImages_def parseVideos_def parseAudio_def parseFonts_def parseTextures_def
      parseMaterials_def)

lemma console_grows:
  shows "\<And>st' r. parseObject dec st nd = (st', r) \<Longrightarrow> grows st st'"
    and "\<And>st' r. parseChildren dec st obj l = (st', r) \<Longrightarrow> grows st st'"
    and "\<And>st' r. parse dec onLoad st doc = (st', r) \<Longrightarrow> grows st st'"
proof (induction dec st nd and dec st obj l and dec onLoad st doc
    rule: parseObject_parseChildren_parse.induct)
  case (1 dec st data cs dc)
  define pre where "pre =
    (if d_type data = ''Scene'' then
       (case dc of None \<Rightarrow> (st, None)
        | Some doc \<Rightarrow>
            (case parse dec False st doc of
               (st1, Inl e) \<Rightarrow> (st1, Some e)
             | (st1, Inr cam) \<Rightarrow> (st1, None)))
     else (st, None))"
  obtain st1 thrown where pre: "pre = (st1, thrown)" by (cases pre)
  have l1: "grows st st1"
  proof (cases "d_type data = ''Scene'' \<and> dc \<noteq> None")
    case True
    then obtain doc where doc: "dc = Some doc" by auto
    obtain s0 r0 where p: "parse dec False st doc = (s0, r0)" by (cases "parse dec False st doc")
    from "1.IH"(1)[OF _ doc p] True have "grows st s0" by simp
    moreover have "st1 = s0" using pre True doc p by (auto simp: pre_def split: sum.splits)
    ultimately show ?thesis by simp
  next
    case False
    with pre show ?thesis by (auto simp: pre_def split: if_splits)
  qed
  obtain a0 st2 where tc: "tryConstruct st1 data thrown = (a0, st2)"
    by (cases "tryConstruct st1 data thrown")
  have l2: "grows st1 st2"
    using tryConstruct_consoleOnly[OF tc] by (rule consoleOnly_grows)
  define kidsr where "kidsr a =
    (case cs of None \<Rightarrow> (st2, Inr (Node a [])) | Some l \<Rightarrow> parseChildren dec st2 (Node a []) l)" for a
  have unf: "parseObject dec st (NodeData data cs dc) =
    (case applyCommon dec data a0 of
       Inl e \<Rightarrow> (st2, Inl e)
     | Inr a \<Rightarrow>
         (case kidsr a of
            (st3, Inl e) \<Rightarrow> (st3, Inl e)
          | (st3, Inr obj) \<Rightarrow> finishObject st3 data obj))"
    unfolding parseObject.simps pre_def[symmetric] pre kidsr_def by (simp add: tc)
  have l12: "grows st st2" using l1 l2 by (rule grows_trans)
  show ?case
  proof (cases "applyCommon dec data a0")
    case (Inl e)
    with unf "1.prems" l12 show ?thesis by simp
  next
    case (Inr a)
    obtain st3 r3 where kr: "kidsr a = (st3, r3)" by (cases "kidsr a")
    have l3: "grows st2 st3"
    proof (cases cs)
      case None
      with kr show ?thesis by (simp add: kidsr_def)
    next
      case (Some l)
      with kr have "parseChildren dec st2 (Node a []) l = (st3, r3)" by (simp add: kidsr_def)
      from "1.IH"(2)[OF _ _ Inr Some this, of st1 thrown] pre tc show ?thesis
        by (simp add: pre_def)
    qed
    have l13: "grows st st3" using l12 l3 by (rule grows_trans)
    show ?thesis
    proof (cases r3)
      case (Inl e)
      with unf "1.prems" Inr kr l13 show ?thesis by simp
    next
      case (Inr obj)
      with unf "1.prems" \<open>applyCommon dec data a0 = Inr a\<close> kr
      have "finishObject st3 data obj = (st', r)" by simp
      from finishObject_consoleOnly[OF this] have "grows st3 st'"
        by (rule consoleOnly_grows)
      with l13 show ?thesis by (rule grows_trans)
    qed
  qed
next
  case (2 dec st object)
  then show ?case by simp
next
  case (3 dec st object c cs)
  obtain st1 r1 where p: "parseObject dec st c = (st1, r1)" by (cases "parseObject dec st c")
  from "3.IH"(1)[OF p] have l1: "grows st st1" .
  show ?case
  proof (cases r1)
    case (Inl e)
    with p "3.prems" l1 show ?thesis by simp
  next
    case (Inr child)
    with p "3.prems" have "parseChildren dec st1 (add object child) cs = (st', r)" by simp
    from "3.IH"(2)[OF p[symmetric] Inr this] l1 show ?thesis by (auto intro: grows_trans)
  qed
next
  case (4 dec onLoad st json obj)
  show ?case
  proof (cases obj)
    case None
    with "4.prems" show ?thesis
      by (auto simp: parse.simps grows_def)
  next
    case (Some data)
    obtain st2 r2 where p: "parseObject dec (parseAll st json) data = (st2, r2)"
      by (cases "parseObject dec (parseAll st json) data")
    from "4.IH"[OF refl Some p] have l: "grows st st2" by (simp add: grows_def)
    from "4.prems" Some p l show ?thesis
      by (cases r2) (auto simp: parse.simps grows_def split: if_splits)
  qed
qed

text \<open>What the \<^verbatim>\<open>catch\<close> does achieve: for a record that is neither a Scene nor a Program
  and has no \<^verbatim>\<open>shadow\<close> field, a construction that throws is logged and replaced by a
  Container, and \<open>parseObject\<close> returns it.\<close>

lemma failed_construction_contained:
  assumes "construct st data = Inl e"
    and "d_type data \<noteq> ''Scene''" and "d_type data \<noteq> ''Program''"
    and "d_shadow data = None"
    and "case d_skeletons data of None \<Rightarrow> True | Some json \<Rightarrow> list_all wellFormedSkeleton json"
    and "case cs of None \<Rightarrow> True | Some l \<Rightarrow> (\<exists>st3 r. parseChildren dec st0 base l = (st3, Inr r))"
    and "st0 = st\<lparr>console := console st @
              [ConsoleError (''nunuStudio: Error parsing and creating object '' @ str (d_uuid data)
                 @ '', object skiped.'') e]\<rparr>"
  shows "\<exists>st' object. parseObject dec st (NodeData data cs dc) = (st', Inr object)
     \<and> kind (attrs object) = Container
     \<and> uuid (attrs object) = d_uuid data \<and> name (attrs object) = d_name data
     \<and> ConsoleError (''nunuStudio: Error parsing and creating object '' @ str (d_uuid data)
                 @ '', object skiped.'') e \<in> set (console st')"
proof -
  have notLOD: "d_type data \<noteq> ''LOD''"
    using assms(1) by (auto simp: construct_LOD)
  have tc: "tryConstruct st data None = (newObject Container, st0)"
    by (simp add: tryConstruct_def assms(1,7))
  from applyCommon_total[OF assms(4)] obtain a where
    ac: "applyCommon dec data (newObject Container) = Inr a" by blast
  obtain st3 obj where kids: "(case cs of None \<Rightarrow> (st0, Inr (Node a []))
        | Some l \<Rightarrow> parseChildren dec st0 (Node a []) l) = (st3, Inr obj)"
  proof (cases cs)
    case None
    then show ?thesis using that by simp
  next
    case (Some l)
    with assms(6) obtain s r where "parseChildren dec st0 base l = (s, Inr r)" by auto
    from parseChildren_base[OF this, of "Node a []"] Some that show ?thesis by auto
  qed
  have obj_a: "attrs obj = a"
    using kids parseChildren_attrs[of dec st0 "Node a []" _ st3 obj] by (auto split: option.splits)
  have c03: "grows st0 st3"
  proof (cases cs)
    case None
    with kids show ?thesis by simp
  next
    case (Some l)
    with kids have "parseChildren dec st0 (Node a []) l = (st3, Inr obj)" by simp
    then show ?thesis by (rule console_grows(2))
  qed
  from skeletonBlock_total[OF assms(5)] obtain st' mid where
    sk: "skeletonBlock st3 data (staticMatrix data obj) = (st', Inr mid)" by blast
  have pp: "postProcess data (animationBlock data mid) = Inr (animationBlock data mid)"
    using assms(2,3) notLOD by (simp add: postProcess_def)
  define object where "object = animationBlock data mid"
  have fin: "finishObject st3 data obj = (st', Inr object)"
    using sk pp by (simp add: finishObject_def object_def)
  have run: "parseObject dec st (NodeData data cs dc) = (st', Inr object)"
    using assms(2) tc ac kids fin by (simp add: parseObject_plain)
  from finishObject_universal[OF fin] obj_a have u: "universal (attrs object) = universal a" by simp
  have eqs: "kind (attrs object) = kind a" "uuid (attrs object) = uuid a" "name (attrs object) = name a"
    using u universal_fields by metis+
  have "kind a = Container" "uuid a = d_uuid data" "name a = d_name data"
    using applyCommon_later_fields(1,6,7)[OF ac] by (simp_all add: newObject_def)
  moreover have "ConsoleError (''nunuStudio: Error parsing and creating object '' @ str (d_uuid data)
                 @ '', object skiped.'') e \<in> set (console st')"
  proof -
    have "grows st3 st'" using finishObject_consoleOnly[OF fin] by (rule consoleOnly_grows)
    with c03 have "grows st0 st'" by (rule grows_trans)
    moreover have "ConsoleError (''nunuStudio: Error parsing and creating object '' @ str (d_uuid data)
                 @ '', object skiped.'') e \<in> set (console st0)"
      by (simp add: assms(7))
    ultimately show ?thesis by (rule grows_mono)
  qed
  ultimately show ?thesis using run eqs by auto
qed

subsection \<open>The skeleton block: when it returns and what it builds\<close>






section \<open>The claims\<close>

subsection \<open>Failure containment\<close>

text \<open>
  Claim C1. A node whose construction throws is meant to be replaced by an empty
  Container while the rest of the document loads. For a Scene record the replacement is
  made and the error is logged, but the wiring that follows is chosen by \<^verbatim>\<open>data.type\<close>
  and reads \<^verbatim>\<open>object.cameras.length\<close> on the Container: the second exception is outside
  the \<^verbatim>\<open>try\<close>, and the whole \<open>parse\<close> of the project fails without calling \<^verbatim>\<open>onLoad\<close>.
  For records that are neither a Scene nor a Program the replacement does what is
  claimed (\<open>failed_construction_contained\<close>).
\<close>

theorem broken_scene_aborts_load:
  "parse translation True emptyLoader (Document noResources (Some brokenProject))
   = (emptyLoader\<lparr>console :=
        [ConsoleError ''nunuStudio: Error parsing and creating object scene, object skiped.''
           (TypeError ''data.world.gravity is undefined'')]\<rparr>,
      Inl (TypeError ''object.cameras is undefined''))"
  by code_simp

subsection \<open>Cameras of a Scene\<close>

text \<open>
  Claim C2. The camera list of a Scene is meant to keep the cameras that resolve and drop
  every UUID that does not. \<^verbatim>\<open>splice(i, 1)\<close> is followed by \<^verbatim>\<open>i++\<close>, so the entry after a
  dropped one is never looked at: of two stale UUIDs in a row the second stays in the
  list, as a string.
\<close>

theorem stale_camera_survives:
  "parseObject translation emptyLoader staleCameras
   = (emptyLoader,
      Inr (Node ((newObject Scene)\<lparr>uuid := Some ''scene'', name := None, visible := False,
                   cameras := [CamUuid ''gone2'', CamNode [0]]\<rparr>)
             [Node ((newObject PerspectiveCamera)\<lparr>uuid := Some ''cam'', name := None,
                      visible := False\<rparr>) []]))"
  by code_simp

subsection \<open>Animation clips\<close>


subsection \<open>Skeleton binding\<close>



subsection \<open>Unknown type tags\<close>




subsection \<open>Visibility and shadow flags\<close>

text \<open>
  Claim C6. Whenever \<open>parseObject\<close> returns an object for a record, a record without
  \<^verbatim>\<open>visible\<close> gives an object that is not visible, a record without \<^verbatim>\<open>castShadow\<close> one
  that casts no shadow, and a record without \<^verbatim>\<open>receiveShadow\<close> one that receives none:
  the three flags are \<^verbatim>\<open>data.x === true\<close> and never default to true.
\<close>

theorem absent_flags_are_false:
  assumes "parseObject dec st (NodeData data cs dc) = (st', Inr object)"
  shows "(d_visible data = None \<longrightarrow> \<not> visible (attrs object))
       \<and> (d_castShadow data = None \<longrightarrow> \<not> castShadow (attrs object))
       \<and> (d_receiveShadow data = None \<longrightarrow> \<not> receiveShadow (attrs object))"
proof -
  from assms obtain a0 a where ac: "applyCommon dec data a0 = Inr a"
    and u: "universal (attrs object) = universal a"
    by (rule parseObject_common)
  from ac have cs: "commonShadow data (commonTransform dec data (commonIdentity data a0)) = Inr a"
    by (simp add: applyCommon_def)
  have "visible (attrs object) = visible a" "castShadow (attrs object) = castShadow a"
    "receiveShadow (attrs object) = receiveShadow a"
    using u universal_fields by metis+
  with commonShadow_fields(8-10)[OF cs] show ?thesis by simp
qed

theorem absent_flags_are_false_witness:
  "parseObject translation emptyLoader (NodeData movedGroup None None) = (emptyLoader, Inr movedGroupObject)
   \<and> d_visible movedGroup = None \<and> \<not> visible (attrs movedGroupObject)
   \<and> d_castShadow movedGroup = None \<and> \<not> castShadow (attrs movedGroupObject)
   \<and> d_receiveShadow movedGroup = None \<and> \<not> receiveShadow (attrs movedGroupObject)"
proof -
  have run: "parseObject translation emptyLoader (NodeData movedGroup None None)
      = (emptyLoader, Inr movedGroupObject)"
    by code_simp
  have absent: "d_visible movedGroup = None" "d_castShadow movedGroup = None"
    "d_receiveShadow movedGroup = None"
    by (simp_all add: movedGroup_def blank_def)
  from absent_flags_are_false[OF run] run absent show ?thesis by simp
qed

subsection \<open>Matrix first, component arrays afterwards\<close>



subsection \<open>Levels of a LOD\<close>



subsection \<open>Completion callback\<close>

text \<open>
  Claim C9. Take any call \<^verbatim>\<open>parse(json, onLoad)\<close> and its outcome. If it returns, the
  value returned is the tree \<open>parseObject\<close> built from \<^verbatim>\<open>json.object\<close> after the
  sub-loaders ran; if \<^verbatim>\<open>json.images\<close> is absent or empty (and a callback was passed)
  \<^verbatim>\<open>onLoad\<close> has been called exactly once by then, with that tree; if the document
  declares an image, \<open>parse\<close> has not called it. A \<open>parse\<close> that throws has not called it
  either. Nested calls for a \<^verbatim>\<open>defaultCamera\<close> pass no callback, so nothing below the
  top level calls it.
\<close>

theorem onLoad_iff_no_images:
  assumes "parse dec onLoad st doc = (st', r)"
  shows "(\<forall>object. r = Inr object \<longrightarrow>
            (\<exists>data st0. doc_object doc = Some data
               \<and> parseObject dec (parseAll st (doc_res doc)) data = (st0, Inr object))
          \<and> ((j_images (doc_res doc) = None \<or> j_images (doc_res doc) = Some []) \<and> onLoad
               \<longrightarrow> loaded st' = loaded st @ [object])
          \<and> ((\<exists>i rest. j_images (doc_res doc) = Some (i # rest)) \<longrightarrow> loaded st' = loaded st))
       \<and> (\<forall>e. r = Inl e \<longrightarrow> loaded st' = loaded st)"
proof -
  have calls: "loaded st' = loaded st @ onLoadCalls onLoad doc r"
    using assms by (rule loaded_calls(3))
  have tree: "\<exists>data st0. doc_object doc = Some data
      \<and> parseObject dec (parseAll st (doc_res doc)) data = (st0, Inr object)"
    if "r = Inr object" for object
  proof (cases doc)
    case (Document json obj)
    show ?thesis
    proof (cases obj)
      case None
      with assms Document that show ?thesis by (simp add: parse.simps)
    next
      case (Some data)
      obtain st2 r2 where p: "parseObject dec (parseAll st json) data = (st2, r2)"
        by (cases "parseObject dec (parseAll st json) data")
      with assms Document Some that have "r2 = Inr object"
        by (cases r2) (auto simp: parse.simps)
      with p Document Some show ?thesis by simp
    qed
  qed
  show ?thesis
    using calls tree by (auto simp: onLoadCalls_def)
qed

theorem onLoad_iff_no_images_witness:
  "parse translation True emptyLoader (Document noResources (Some (NodeData movedGroup None None)))
     = (emptyLoader\<lparr>loaded := [movedGroupObject]\<rparr>, Inr movedGroupObject)
   \<and> j_images noResources = None
   \<and> loaded (emptyLoader\<lparr>loaded := [movedGroupObject]\<rparr>) = loaded emptyLoader @ [movedGroupObject]"
proof -
  have run: "parse translation True emptyLoader (Document noResources (Some (NodeData movedGroup None None)))
     = (emptyLoader\<lparr>loaded := [movedGroupObject]\<rparr>, Inr movedGroupObject)"
    by code_simp
  have none: "j_images noResources = None" by (simp add: noResources_def)
  from onLoad_iff_no_images[OF run] run none show ?thesis by simp
qed

subsection \<open>The temporary skeletonUUID property\<close>

text \<open>
  Claim C10. For a record whose \<^verbatim>\<open>skeletons\<close> block declares at least one skeleton, in
  the object \<open>parseObject\<close> returns no skinned mesh of the subtree, the root included,
  still has a \<^verbatim>\<open>skeletonUUID\<close>: \<^verbatim>\<open>bindSkeletons\<close> deletes it from every skinned mesh
  it visits, whether or not the skeleton was found.
\<close>

theorem skeletonUUID_deleted:
  assumes "d_skeletons data = Some (s # rest)"
    and "parseObject dec st (NodeData data cs dc) = (st', Inr object)"
  shows "\<forall>n \<in> set (subnodes object). kind (attrs n) = SkinnedMesh \<longrightarrow> skeletonUUID (attrs n) = None"
proof -
  from assms(2) obtain st1 thrown a0 st2 a st3 kids where
    "tryConstruct st1 data thrown = (a0, st2)"
    "d_type data \<noteq> ''Scene'' \<or> dc = None \<longrightarrow> st1 = st \<and> thrown = None"
    "applyCommon dec data a0 = Inr a"
    "(case cs of None \<Rightarrow> (st2, Inr (Node a [])) | Some l \<Rightarrow> parseChildren dec st2 (Node a []) l)
       = (st3, Inr (Node a kids))"
    and fin: "finishObject st3 data (Node a kids) = (st', Inr object)"
    by (rule parseObject_stages)
  from fin obtain mid where sk: "skeletonBlock st3 data (staticMatrix data (Node a kids)) = (st', Inr mid)"
    and pp: "postProcess data (animationBlock data mid) = Inr object"
    by (rule finishObject_stages)
  define x where "x = staticMatrix data (Node a kids)"
  from sk assms(1) obtain st4 sks where
    ps: "parseSkeletonsFrom st3 x (s # rest) [] = (st4, Inr sks)"
    and bs: "bindSkeletons st4 x sks = (mid, st')"
    by (auto simp: skeletonBlock_def parseSkeletons_def x_def split: prod.splits sum.splits)
  from parseSkeletonsFrom_nonempty[OF ps] have "sks \<noteq> []" by simp
  with bs have mid: "mid = fst (traverse (bindOne sks) x st4)"
    by (simp add: bindSkeletons_def)
  have cleared: "kind (attrs n) = SkinnedMesh \<longrightarrow> skeletonUUID (attrs n) = None"
    if "n \<in> set (subnodes mid)" for n
    using that unfolding mid
    by (rule traverse_subnodes[where P = "\<lambda>a. kind a = SkinnedMesh \<longrightarrow> skeletonUUID a = None",
          OF bindOne_clears])
  from postProcess_writes[OF pp] obtain c l where
    ao: "attrs object = (attrs (animationBlock data mid))\<lparr>cameras := c, levels := l\<rparr>"
    and co: "children object = children mid"
    by auto
  show ?thesis
  proof
    fix n assume "n \<in> set (subnodes object)"
    then consider "n = object" | ch where "ch \<in> set (children object)" "n \<in> set (subnodes ch)"
      by (auto simp: subnodes_root[of object])
    then show "kind (attrs n) = SkinnedMesh \<longrightarrow> skeletonUUID (attrs n) = None"
    proof cases
      case 1
      have "mid \<in> set (subnodes mid)" by (simp add: subnodes_root[of mid])
      from cleared[OF this] 1 ao show ?thesis by simp
    next
      case 2
      with co have "n \<in> set (subnodes mid)" by (auto simp: subnodes_root[of mid])
      then show ?thesis by (rule cleared)
    qed
  qed
qed

theorem skeletonUUID_deleted_witness:
  "d_skeletons rig = Some rigSkeletons \<and> rigSkeletons \<noteq> []
   \<and> parseObject translation rigLoader (NodeData rig (Some rigChildren) None)
       = (rigLoader\<lparr>console := rigConsole\<rparr>, Inr rigObject)
   \<and> map (\<lambda>n. (kind (attrs n), skeletonUUID (attrs n))) (subnodes rigObject)
       = [(Container, None), (Bone, None), (SkinnedMesh, None), (SkinnedMesh, None)]"
proof -
  have sk: "d_skeletons rig = Some (hd rigSkeletons # tl rigSkeletons)"
    by (simp add: rig_def blank_def rigSkeletons_def)
  have run: "parseObject translation rigLoader (NodeData rig (Some rigChildren) None)
       = (rigLoader\<lparr>console := rigConsole\<rparr>, Inr rigObject)"
    by code_simp
  have nodes: "map (\<lambda>n. (kind (attrs n), skeletonUUID (attrs n))) (subnodes rigObject)
       = [(Container, None), (Bone, None), (SkinnedMesh, None), (SkinnedMesh, None)]"
    by (simp add: rigObject_def newObject_def)
  from skeletonUUID_deleted[OF sk run] sk run nodes show ?thesis
    by (simp add: rigSkeletons_def)
qed

end
